theory Spec2Isabelle
  imports Main "HOL-Library.Char_ord" "HOL-Library.List_Lexorder" "HOL-Library.Multiset"
    "HOL-Library.Word"
begin

section \<open>Values of the plugin framework and of the Go runtime\<close>

text \<open>
  \<^verbatim>\<open>types.String\<close> and \<^verbatim>\<open>types.Int64\<close> of the plugin framework are three-valued:
  null, unknown, or a known value. \<^verbatim>\<open>ValueString()\<close> is the empty string on null and
  unknown, \<^verbatim>\<open>ValueInt64()\<close> is 0 there.
\<close>

datatype types_String = StringNull | StringUnknown | StringValue string

fun IsNull :: "types_String \<Rightarrow> bool" where
  "IsNull StringNull = True"
| "IsNull _ = False"

fun IsUnknown :: "types_String \<Rightarrow> bool" where
  "IsUnknown StringUnknown = True"
| "IsUnknown _ = False"

fun ValueString :: "types_String \<Rightarrow> string" where
  "ValueString (StringValue s) = s"
| "ValueString _ = []"

datatype types_Int64 = Int64Null | Int64Unknown | Int64Value "64 word"

fun Int64_IsNull :: "types_Int64 \<Rightarrow> bool" where
  "Int64_IsNull Int64Null = True"
| "Int64_IsNull _ = False"

fun ValueInt64 :: "types_Int64 \<Rightarrow> 64 word" where
  "ValueInt64 (Int64Value n) = n"
| "ValueInt64 _ = 0"

text \<open>
  A JSON document as a tree. An object keeps its members in the order in which
  \<^verbatim>\<open>json.Marshal\<close> writes the fields of a struct.
\<close>

datatype json =
    JNull
  | JBool bool
  | JNumber int
  | JString string
  | JArray "json list"
  | JObject "(string \<times> json) list"

text \<open>
  Message texts are kept unevaluated: \<open>Lit\<close> is a string constant, \<open>Fmt f args\<close> is
  \<^verbatim>\<open>fmt.Errorf(f, args...)\<close> or \<^verbatim>\<open>fmt.Sprintf(f, args...)\<close> with its format string and
  its arguments, \<open>Cat\<close> is \<^verbatim>\<open>+\<close> on strings, \<open>Bytes\<close> is \<^verbatim>\<open>string(b)\<close> of the received
  bytes and \<open>Doc\<close> of marshalled ones. A Go \<^verbatim>\<open>error\<close> is the text of its \<^verbatim>\<open>Error()\<close>.
\<close>

datatype message =
    Lit string
  | Bytes string
  | Doc json
  | Cat message message
  | Fmt string "message list"

type_synonym error = message

datatype severity = SeverityError | SeverityWarning

record diagnostic =
  Severity :: severity
  Summary :: string
  Detail :: message

definition AddError :: "string \<Rightarrow> message \<Rightarrow> diagnostic list \<Rightarrow> diagnostic list" where
  "AddError summary detail ds =
     ds @ [\<lparr>Severity = SeverityError, Summary = summary, Detail = detail\<rparr>]"

definition AddWarning :: "string \<Rightarrow> message \<Rightarrow> diagnostic list \<Rightarrow> diagnostic list" where
  "AddWarning summary detail ds =
     ds @ [\<lparr>Severity = SeverityWarning, Summary = summary, Detail = detail\<rparr>]"

definition HasError :: "diagnostic list \<Rightarrow> bool" where
  "HasError ds = (SeverityError \<in> set (map Severity ds))"

section \<open>internal/lightdash/models\<close>

text \<open>
  A pointer field (\<^verbatim>\<open>*string\<close>, \<^verbatim>\<open>*bool\<close>, a pointer to a struct) is an \<open>option\<close>:
  \<open>None\<close> is \<^verbatim>\<open>nil\<close>. Field names repeat across the Go structs, so each record
  prefixes its fields.
\<close>

record DbtGithubProjectConfig =
  cfg_Type :: string
  cfg_AuthorizationMethod :: string
  cfg_PersonalAccessToken :: "string option"
  cfg_InstallationID :: "string option"
  cfg_Repository :: string
  cfg_Branch :: string
  cfg_ProjectSubPath :: string
  cfg_HostDomain :: "string option"
  cfg_Target :: "string option"
  cfg_Environment :: "json list option"
  cfg_Selector :: "string option"

definition DbtProjectTypeGithub :: string where
  "DbtProjectTypeGithub = ''github''"

text \<open>
  \<^verbatim>\<open>models.BigQueryCredentials\<close> (assigned to the \<^verbatim>\<open>*WarehouseCredentials\<close> field) is
  declared outside the files at hand; its fields are the ones \<^verbatim>\<open>Create\<close> assigns.
\<close>

record BigQueryCredentials =
  bq_Type :: string
  bq_Project :: string
  bq_KeyfileContents :: json
  bq_Dataset :: "string option"
  bq_AuthenticationType :: "string option"
  bq_Location :: "string option"
  bq_TimeoutSeconds :: "64 word option"
  bq_MaximumBytesBilled :: "64 word option"
  bq_Priority :: "string option"
  bq_Retries :: "64 word option"
  bq_StartOfWeek :: "64 word option"

record Project =
  pr_OrganizationUUID :: string
  pr_ProjectUUID :: string
  pr_Name :: string
  pr_Type :: string
  pr_DbtConnection :: "DbtGithubProjectConfig option"
  pr_DbtVersion :: string
  pr_OrganizationWarehouseCredentialsUUID :: "string option"
  pr_WarehouseConnection :: "json option"
  pr_UpstreamProjectUUID :: "string option"
  pr_PinnedListUUID :: "string option"
  pr_SchedulerTimezone :: "string option"

record CreateProject =
  cp_Name :: string
  cp_Type :: string
  cp_DbtConnection :: "DbtGithubProjectConfig option"
  cp_DbtVersion :: string
  cp_OrganizationWarehouseCredentialsUUID :: "string option"
  cp_WarehouseConnection :: "BigQueryCredentials option"
  cp_UpstreamProjectUUID :: "string option"
  cp_CopyWarehouseConnectionFromUpstreamProject :: "bool option"

record UpdateProject =
  up_Name :: string
  up_DbtConnection :: "DbtGithubProjectConfig option"
  up_DbtVersion :: string
  up_OrganizationWarehouseCredentialsUUID :: "string option"
  up_WarehouseConnection :: "BigQueryCredentials option"

text \<open>
  The result of \<^verbatim>\<open>GetProjectV1\<close>, the token structs and the token request are declared
  outside the files at hand; the fields are the ones the provider reads or writes.
\<close>

record GetProjectV1Results =
  gp_OrganizationUUID :: string
  gp_ProjectUUID :: string
  gp_ProjectName :: string
  gp_ProjectType :: string
  gp_DbtVersion :: string
  gp_OrganizationWarehouseCredentialsUUID :: "string option"
  gp_UpstreamProjectUUID :: "string option"

record PersonalAccessToken =
  pat_UUID :: string
  pat_Description :: string
  pat_CreatedAt :: string
  pat_ExpiresAt :: "string option"
  pat_RotatedAt :: "string option"
  pat_LastUsedAt :: "string option"

record PersonalAccessTokenWithToken =
  patw_UUID :: string
  patw_Description :: string
  patw_CreatedAt :: string
  patw_ExpiresAt :: "string option"
  patw_Token :: string

record CreatePersonalAccessToken =
  cpat_Description :: string
  cpat_AutoGenerated :: bool
  cpat_ExpiresAt :: "string option"

section \<open>internal/lightdash/api\<close>

record CreateProjectV1Results =
  res_HasContentCopy :: bool
  res_ContentCopyError :: "string option"
  res_Project :: Project

record CreateProjectV1Response =
  cpr_Results :: CreateProjectV1Results
  cpr_Status :: string

record UpdateProjectV1Response =
  upr_Results :: Project
  upr_Status :: string

record CreatePersonalAccessTokenV1Response =
  cpatr_Results :: PersonalAccessTokenWithToken
  cpatr_Status :: string

record ListPersonalAccessTokensV1Response =
  lpat_Results :: "PersonalAccessToken list"
  lpat_Status :: string

record request =
  req_Method :: string
  req_URL :: string
  req_Body :: "json option"

text \<open>
  What the functions below use and the files at hand do not define is a field of \<open>env\<close>:
  \<^item> the client's base URL and its transport \<^verbatim>\<open>doRequest\<close> (written \<^verbatim>\<open>DoRequest\<close> in the
    token file), which answers a request with an error or with the bytes of the body;
  \<^item> the client methods \<^verbatim>\<open>GetProjectV1\<close> and \<^verbatim>\<open>DeleteProjectV1\<close>;
  \<^item> of Go's library: whether \<^verbatim>\<open>http.NewRequest\<close> rejects a method and URL,
    \<^verbatim>\<open>json.Unmarshal\<close> into each response struct and into the keyfile map,
    \<^verbatim>\<open>strings.ToLower\<close>;
  \<^item> \<^verbatim>\<open>json.Marshal\<close> of the two structs whose declarations (and so whose JSON tags) are
    not at hand.
\<close>

record env =
  HostUrl :: string
  doRequest :: "request \<Rightarrow> error + string"
  GetProjectV1 :: "string \<Rightarrow> error + GetProjectV1Results"
  DeleteProjectV1 :: "string \<Rightarrow> error option"
  NewRequest_error :: "string \<Rightarrow> string \<Rightarrow> error option"
  Unmarshal_CreateProjectV1Response :: "string \<Rightarrow> error + CreateProjectV1Response"
  Unmarshal_UpdateProjectV1Response :: "string \<Rightarrow> error + UpdateProjectV1Response"
  Unmarshal_CreatePersonalAccessTokenV1Response ::
    "string \<Rightarrow> error + CreatePersonalAccessTokenV1Response"
  Unmarshal_ListPersonalAccessTokensV1Response ::
    "string \<Rightarrow> error + ListPersonalAccessTokensV1Response"
  Unmarshal_keyfile :: "string \<Rightarrow> error + json"
  Marshal_WarehouseCredentials :: "BigQueryCredentials \<Rightarrow> error + json"
  Marshal_CreatePersonalAccessToken :: "CreatePersonalAccessToken \<Rightarrow> error + json"
  ToLower :: "string \<Rightarrow> string"

definition NewRequest :: "env \<Rightarrow> string \<Rightarrow> string \<Rightarrow> json option \<Rightarrow> error + request" where
  "NewRequest c method url body =
     (case NewRequest_error c method url of
        Some err \<Rightarrow> Inl err
      | None \<Rightarrow> Inr \<lparr>req_Method = method, req_URL = url, req_Body = body\<rparr>)"

subsection \<open>json.Marshal along the struct tags of models/project.go\<close>

text \<open>
  A field tagged \<^verbatim>\<open>omitempty\<close> whose type is a pointer is left out exactly when the
  pointer is nil; one whose type is a slice is left out when the slice has no element.
  A pointer field without the tag is written as \<^verbatim>\<open>null\<close> when nil.
\<close>

definition omitempty :: "string \<Rightarrow> ('a \<Rightarrow> json) \<Rightarrow> 'a option \<Rightarrow> (string \<times> json) list" where
  "omitempty key enc v = (case v of None \<Rightarrow> [] | Some x \<Rightarrow> [(key, enc x)])"

definition omitempty_slice :: "string \<Rightarrow> json list option \<Rightarrow> (string \<times> json) list" where
  "omitempty_slice key v =
     (case v of None \<Rightarrow> [] | Some xs \<Rightarrow> if xs = [] then [] else [(key, JArray xs)])"

definition Marshal_DbtGithubProjectConfig :: "DbtGithubProjectConfig \<Rightarrow> json" where
  "Marshal_DbtGithubProjectConfig d =
     JObject
      ([(''type'', JString (cfg_Type d)),
        (''authorization_method'', JString (cfg_AuthorizationMethod d))]
       @ omitempty ''personal_access_token'' JString (cfg_PersonalAccessToken d)
       @ omitempty ''installation_id'' JString (cfg_InstallationID d)
       @ [(''repository'', JString (cfg_Repository d)),
          (''branch'', JString (cfg_Branch d)),
          (''project_sub_path'', JString (cfg_ProjectSubPath d))]
       @ omitempty ''host_domain'' JString (cfg_HostDomain d)
       @ omitempty ''target'' JString (cfg_Target d)
       @ omitempty_slice ''environment'' (cfg_Environment d)
       @ omitempty ''selector'' JString (cfg_Selector d))"

definition Marshal_dbtConnection :: "DbtGithubProjectConfig option \<Rightarrow> json" where
  "Marshal_dbtConnection v =
     (case v of None \<Rightarrow> JNull | Some d \<Rightarrow> Marshal_DbtGithubProjectConfig d)"

definition Marshal_warehouseConnection ::
  "env \<Rightarrow> BigQueryCredentials option \<Rightarrow> error + (string \<times> json) list" where
  "Marshal_warehouseConnection c v =
     (case v of
        None \<Rightarrow> Inr []
      | Some w \<Rightarrow>
          (case Marshal_WarehouseCredentials c w of
             Inl err \<Rightarrow> Inl err
           | Inr j \<Rightarrow> Inr [(''warehouseConnection'', j)]))"

definition Marshal_CreateProject :: "env \<Rightarrow> CreateProject \<Rightarrow> error + json" where
  "Marshal_CreateProject c p =
     (case Marshal_warehouseConnection c (cp_WarehouseConnection p) of
        Inl err \<Rightarrow> Inl err
      | Inr warehouse \<Rightarrow>
          Inr (JObject
            ([(''name'', JString (cp_Name p)),
              (''type'', JString (cp_Type p)),
              (''dbtConnection'', Marshal_dbtConnection (cp_DbtConnection p)),
              (''dbtVersion'', JString (cp_DbtVersion p))]
             @ omitempty ''organizationWarehouseCredentialsUuid'' JString
                 (cp_OrganizationWarehouseCredentialsUUID p)
             @ warehouse
             @ omitempty ''upstreamProjectUuid'' JString (cp_UpstreamProjectUUID p)
             @ omitempty ''copyWarehouseConnectionFromUpstreamProject'' JBool
                 (cp_CopyWarehouseConnectionFromUpstreamProject p))))"

definition Marshal_UpdateProject :: "env \<Rightarrow> UpdateProject \<Rightarrow> error + json" where
  "Marshal_UpdateProject c p =
     (case Marshal_warehouseConnection c (up_WarehouseConnection p) of
        Inl err \<Rightarrow> Inl err
      | Inr warehouse \<Rightarrow>
          Inr (JObject
            ([(''name'', JString (up_Name p)),
              (''dbtConnection'', Marshal_dbtConnection (up_DbtConnection p)),
              (''dbtVersion'', JString (up_DbtVersion p))]
             @ omitempty ''organizationWarehouseCredentialsUuid'' JString
                 (up_OrganizationWarehouseCredentialsUUID p)
             @ warehouse)))"

subsection \<open>The client methods\<close>

text \<open>create\_project\_v1.go\<close>

definition CreateProjectV1 :: "env \<Rightarrow> CreateProject \<Rightarrow> error + Project" where
  "CreateProjectV1 c project =
     (case Marshal_CreateProject c project of
        Inl err \<Rightarrow> Inl (Fmt ''failed to marshal request: %w'' [err])
      | Inr marshalled \<Rightarrow>
          (let path = HostUrl c @ ''/api/v1/org/projects'' in
           case NewRequest c ''POST'' path (Some marshalled) of
             Inl err \<Rightarrow>
               Inl (Fmt ''failed to create new request: %v, body: %s'' [err, Doc marshalled])
           | Inr req \<Rightarrow>
               (case doRequest c req of
                  Inl err \<Rightarrow> Inl (Fmt ''request failed: %v, body: %s'' [err, Doc marshalled])
                | Inr body \<Rightarrow>
                    (case Unmarshal_CreateProjectV1Response c body of
                       Inl err \<Rightarrow>
                         Inl (Fmt ''failed to unmarshal response: %v, body: %s''
                                [err, Bytes body])
                     | Inr response \<Rightarrow>
                         if pr_ProjectUUID (res_Project (cpr_Results response)) = []
                         then Inl (Fmt ''project UUID is missing in the response'' [])
                         else Inr (res_Project (cpr_Results response))))))"

text \<open>The second document of unnamed/part\_003: \<^verbatim>\<open>UpdateProjectV1\<close>.\<close>

definition UpdateProjectV1 :: "env \<Rightarrow> string \<Rightarrow> UpdateProject \<Rightarrow> error + Project" where
  "UpdateProjectV1 c projectUuid project =
     (case Marshal_UpdateProject c project of
        Inl err \<Rightarrow> Inl (Fmt ''failed to marshal request: %w'' [err])
      | Inr marshalled \<Rightarrow>
          (let path = HostUrl c @ ''/api/v1/projects/'' @ projectUuid in
           case NewRequest c ''PATCH'' path (Some marshalled) of
             Inl err \<Rightarrow>
               Inl (Fmt ''failed to create new request: %v, body: %s'' [err, Doc marshalled])
           | Inr req \<Rightarrow>
               (case doRequest c req of
                  Inl err \<Rightarrow> Inl (Fmt ''request failed: %v, body: %s'' [err, Doc marshalled])
                | Inr body \<Rightarrow>
                    (case Unmarshal_UpdateProjectV1Response c body of
                       Inl err \<Rightarrow>
                         Inl (Fmt ''failed to unmarshal response: %v, body: %s''
                                [err, Bytes body])
                     | Inr response \<Rightarrow>
                         if pr_ProjectUUID (upr_Results response) = []
                         then Inl (Fmt ''project UUID is missing in the response'' [])
                         else Inr (upr_Results response)))))"

text \<open>create\_personal\_access\_token\_v1.go\<close>

definition CreatePersonalAccessTokenV1 ::
  "env \<Rightarrow> CreatePersonalAccessToken \<Rightarrow> error + PersonalAccessTokenWithToken" where
  "CreatePersonalAccessTokenV1 c request =
     (case Marshal_CreatePersonalAccessToken c request of
        Inl err \<Rightarrow>
          Inl (Fmt ''error marshalling create personal access token request: %v'' [err])
      | Inr marshalled \<Rightarrow>
          (let path = HostUrl c @ ''/api/v1/user/me/personal-access-tokens'' in
           case NewRequest c ''POST'' path (Some marshalled) of
             Inl err \<Rightarrow>
               Inl (Fmt ''error creating POST request for personal access token: %v'' [err])
           | Inr req \<Rightarrow>
               (case doRequest c req of
                  Inl err \<Rightarrow>
                    Inl (Fmt ''error performing POST request for personal access token: %v, body: %s''
                           [err, Doc marshalled])
                | Inr body \<Rightarrow>
                    (case Unmarshal_CreatePersonalAccessTokenV1Response c body of
                       Inl err \<Rightarrow>
                         Inl (Fmt ''error unmarshalling response for personal access token: %v, body: %s''
                                [err, Bytes body])
                     | Inr response \<Rightarrow>
                         if patw_UUID (cpatr_Results response) = []
                         then Inl (Fmt ''token UUID is missing in the response'' [])
                         else Inr (cpatr_Results response)))))"

text \<open>The first document of unnamed/part\_003: \<^verbatim>\<open>ListPersonalAccessTokensV1\<close>.\<close>

definition ListPersonalAccessTokensV1 :: "env \<Rightarrow> error + PersonalAccessToken list" where
  "ListPersonalAccessTokensV1 c =
     (let path = HostUrl c @ ''/api/v1/user/me/personal-access-tokens'' in
      case NewRequest c ''GET'' path None of
        Inl err \<Rightarrow>
          Inl (Fmt ''error creating GET request for personal access tokens: %v'' [err])
      | Inr req \<Rightarrow>
          (case doRequest c req of
             Inl err \<Rightarrow>
               Inl (Fmt ''error performing GET request for personal access tokens: %v'' [err])
           | Inr body \<Rightarrow>
               (case Unmarshal_ListPersonalAccessTokensV1Response c body of
                  Inl err \<Rightarrow>
                    Inl (Fmt ''error unmarshalling response for personal access tokens: %v''
                           [err])
                | Inr response \<Rightarrow> Inr (lpat_Results response))))"

section \<open>internal/provider: the lightdash\_project resource\<close>

record dbtConnectionModel =
  dbt_Type :: types_String
  dbt_AuthorizationMethod :: types_String
  dbt_PersonalAccessToken :: types_String
  dbt_Repository :: types_String
  dbt_Branch :: types_String
  dbt_ProjectSubPath :: types_String
  dbt_HostDomain :: types_String
  dbt_Target :: types_String

record warehouseConnectionModel =
  wh_Type :: types_String
  wh_Project :: types_String
  wh_Dataset :: types_String
  wh_KeyfileContents :: types_String
  wh_AuthenticationType :: types_String
  wh_Location :: types_String
  wh_TimeoutSeconds :: types_Int64
  wh_MaximumBytesBilled :: types_Int64
  wh_Priority :: types_String
  wh_Retries :: types_Int64
  wh_StartOfWeek :: types_Int64

text \<open>
  resource\_lightdash\_project.go holds two documents, each a whole revision of the
  resource. The first (lines 1 to 452) has the \<^verbatim>\<open>warehouse_connection\<close> block, an
  \<^verbatim>\<open>Update\<close> that only reports an error and a \<^verbatim>\<open>Delete\<close> that only reports a warning. The
  second (lines 453 to 905) has no \<^verbatim>\<open>warehouse_connection\<close>, patches the project in
  \<^verbatim>\<open>Update\<close>, deletes it in \<^verbatim>\<open>Delete\<close> and has \<^verbatim>\<open>ImportState\<close>. Functions of the
  second document carry the suffix \<open>_rev2\<close>; \<^verbatim>\<open>Read\<close> is the same text in both. One record
  serves both: the second document's model is the first one's without
  \<open>WarehouseConnection\<close>, which its functions never read or write.
\<close>

record projectResourceModel =
  ID :: types_String
  OrganizationUUID :: types_String
  ProjectUUID :: types_String
  Name :: types_String
  Type :: types_String
  DbtVersion :: types_String
  DbtConnection :: "dbtConnectionModel option"
  OrganizationWarehouseCredentialsUUID :: types_String
  WarehouseConnection :: "warehouseConnectionModel option"
  UpstreamProjectUUID :: types_String

text \<open>
  What a lifecycle method leaves behind: the diagnostics it appended, what it did to
  \<^verbatim>\<open>resp.State\<close> (nothing, \<^verbatim>\<open>Set\<close>, or \<^verbatim>\<open>RemoveResource\<close>), and the client methods it
  invoked, in order. Every HTTP request of the provider is made inside a client method.
  The functions take the decoded plan or state: \<^verbatim>\<open>req.Plan.Get\<close>, \<^verbatim>\<open>req.State.Get\<close> and
  \<^verbatim>\<open>resp.State.Set\<close> belong to the framework and are taken to succeed.
\<close>

datatype call =
    Call_CreateProjectV1 CreateProject
  | Call_GetProjectV1 string
  | Call_UpdateProjectV1 string UpdateProject
  | Call_DeleteProjectV1 string
  | Call_ListPersonalAccessTokensV1
  | Call_CreatePersonalAccessTokenV1 CreatePersonalAccessToken

datatype 's state_write = Untouched | StateSet 's | RemoveResource

record 's response =
  Diagnostics :: "diagnostic list"
  State :: "'s state_write"
  Calls :: "call list"

text \<open>\<^verbatim>\<open>if !x.IsNull() { v := x.ValueString(); field = &v }\<close>, the field being nil before.\<close>

definition String_ptr :: "types_String \<Rightarrow> string option" where
  "String_ptr x = (if \<not> IsNull x then Some (ValueString x) else None)"

definition Int64_ptr :: "types_Int64 \<Rightarrow> 64 word option" where
  "Int64_ptr x = (if \<not> Int64_IsNull x then Some (ValueInt64 x) else None)"

definition getProjectResourceId :: "string \<Rightarrow> string \<Rightarrow> string" where
  "getProjectResourceId organizationUUID projectUUID =
     ''organizations/'' @ organizationUUID @ ''/projects/'' @ projectUUID"

text \<open>
  The block "Build dbt connection config", the same text in \<^verbatim>\<open>Create\<close> of both documents
  and in \<^verbatim>\<open>Update\<close> of the second.
\<close>

definition build_dbtConnection :: "projectResourceModel \<Rightarrow> DbtGithubProjectConfig option" where
  "build_dbtConnection plan =
     (case DbtConnection plan of
        None \<Rightarrow> None
      | Some d \<Rightarrow>
          Some \<lparr>cfg_Type = DbtProjectTypeGithub,
                cfg_AuthorizationMethod = ValueString (dbt_AuthorizationMethod d),
                cfg_PersonalAccessToken = String_ptr (dbt_PersonalAccessToken d),
                cfg_InstallationID = None,
                cfg_Repository = ValueString (dbt_Repository d),
                cfg_Branch = ValueString (dbt_Branch d),
                cfg_ProjectSubPath = ValueString (dbt_ProjectSubPath d),
                cfg_HostDomain = String_ptr (dbt_HostDomain d),
                cfg_Target = String_ptr (dbt_Target d),
                cfg_Environment = None,
                cfg_Selector = None\<rparr>)"

text \<open>
  The block "Build create project request" with the assignment of
  \<^verbatim>\<open>OrganizationWarehouseCredentialsUUID\<close> that follows it.
\<close>

definition build_createReq :: "projectResourceModel \<Rightarrow> CreateProject" where
  "build_createReq plan =
     \<lparr>cp_Name = ValueString (Name plan),
      cp_Type = ValueString (Type plan),
      cp_DbtConnection = build_dbtConnection plan,
      cp_DbtVersion = ValueString (DbtVersion plan),
      cp_OrganizationWarehouseCredentialsUUID =
        String_ptr (OrganizationWarehouseCredentialsUUID plan),
      cp_WarehouseConnection = None,
      cp_UpstreamProjectUUID = None,
      cp_CopyWarehouseConnectionFromUpstreamProject = None\<rparr>"

text \<open>
  The struct \<^verbatim>\<open>warehouseConn\<close> of the first document's \<^verbatim>\<open>Create\<close>, from the parsed keyfile.
  The conversions \<^verbatim>\<open>int(...)\<close> keep the 64 bits of the value.
\<close>

definition build_warehouseConn ::
  "env \<Rightarrow> warehouseConnectionModel \<Rightarrow> json \<Rightarrow> BigQueryCredentials" where
  "build_warehouseConn c w keyfileMap =
     \<lparr>bq_Type = ValueString (wh_Type w),
      bq_Project = ValueString (wh_Project w),
      bq_KeyfileContents = keyfileMap,
      bq_Dataset = String_ptr (wh_Dataset w),
      bq_AuthenticationType = String_ptr (wh_AuthenticationType w),
      bq_Location = String_ptr (wh_Location w),
      bq_TimeoutSeconds = Int64_ptr (wh_TimeoutSeconds w),
      bq_MaximumBytesBilled = Int64_ptr (wh_MaximumBytesBilled w),
      bq_Priority = map_option (ToLower c) (String_ptr (wh_Priority w)),
      bq_Retries = Int64_ptr (wh_Retries w),
      bq_StartOfWeek = Int64_ptr (wh_StartOfWeek w)\<rparr>"

text \<open>
  The end of \<^verbatim>\<open>Create\<close>, the same text in both documents: the upstream UUID, the call of
  \<^verbatim>\<open>CreateProjectV1\<close>, the state.
\<close>

definition Create_send ::
  "env \<Rightarrow> projectResourceModel \<Rightarrow> CreateProject \<Rightarrow> projectResourceModel response" where
  "Create_send c plan createReq0 =
     (let createReq =
            (if \<not> IsNull (UpstreamProjectUUID plan)
             then createReq0\<lparr>cp_UpstreamProjectUUID :=
                               Some (ValueString (UpstreamProjectUUID plan))\<rparr>
             else createReq0)
      in case CreateProjectV1 c createReq of
           Inl err \<Rightarrow>
             \<lparr>Diagnostics =
                AddError ''Error creating project''
                  (Cat (Lit ''Could not create project, unexpected error: '') err) [],
              State = Untouched,
              Calls = [Call_CreateProjectV1 createReq]\<rparr>
         | Inr createdProject \<Rightarrow>
             (let organizationUUID = ValueString (OrganizationUUID plan);
                  stateId = getProjectResourceId organizationUUID (pr_ProjectUUID createdProject)
              in \<lparr>Diagnostics = [],
                  State = StateSet
                    (plan\<lparr>ID := StringValue stateId,
                          ProjectUUID := StringValue (pr_ProjectUUID createdProject)\<rparr>),
                  Calls = [Call_CreateProjectV1 createReq]\<rparr>))"

text \<open>\<^verbatim>\<open>Create\<close> of the first document (lines 251 to 383).\<close>

definition projectResource_Create ::
  "env \<Rightarrow> projectResourceModel \<Rightarrow> projectResourceModel response" where
  "projectResource_Create c plan =
     (let createReq = build_createReq plan
      in case WarehouseConnection plan of
           None \<Rightarrow> Create_send c plan createReq
         | Some w \<Rightarrow>
             (case Unmarshal_keyfile c (ValueString (wh_KeyfileContents w)) of
                Inl err \<Rightarrow>
                  \<lparr>Diagnostics =
                     AddError ''Error parsing keyfile_contents''
                       (Cat (Lit ''Could not parse keyfile_contents as JSON: '') err) [],
                   State = Untouched,
                   Calls = []\<rparr>
              | Inr keyfileMap \<Rightarrow>
                  Create_send c plan
                    (createReq\<lparr>cp_WarehouseConnection :=
                                 Some (build_warehouseConn c w keyfileMap)\<rparr>)))"

text \<open>\<^verbatim>\<open>Create\<close> of the second document (lines 637 to 708).\<close>

definition projectResource_Create_rev2 ::
  "env \<Rightarrow> projectResourceModel \<Rightarrow> projectResourceModel response" where
  "projectResource_Create_rev2 c plan = Create_send c plan (build_createReq plan)"

text \<open>\<^verbatim>\<open>Read\<close> (lines 385 to 429, and again lines 710 to 754).\<close>

definition projectResource_Read ::
  "env \<Rightarrow> projectResourceModel \<Rightarrow> projectResourceModel response" where
  "projectResource_Read c state =
     (case GetProjectV1 c (ValueString (ProjectUUID state)) of
        Inl err \<Rightarrow>
          \<lparr>Diagnostics =
             AddError ''Error Reading project''
               (Cat (Cat (Cat (Lit ''Could not read project ID '') (Lit (ValueString (ID state))))
                      (Lit '': '')) err) [],
           State = Untouched,
           Calls = [Call_GetProjectV1 (ValueString (ProjectUUID state))]\<rparr>
      | Inr project \<Rightarrow>
          (let state1 = state\<lparr>Name := StringValue (gp_ProjectName project),
                               Type := StringValue (gp_ProjectType project),
                               OrganizationUUID := StringValue (gp_OrganizationUUID project)\<rparr>;
               state2 = (if gp_DbtVersion project \<noteq> []
                         then state1\<lparr>DbtVersion := StringValue (gp_DbtVersion project)\<rparr>
                         else state1);
               state3 = state2\<lparr>OrganizationWarehouseCredentialsUUID :=
                          (case gp_OrganizationWarehouseCredentialsUUID project of
                             Some u \<Rightarrow> StringValue u
                           | None \<Rightarrow> StringNull)\<rparr>;
               state4 = state3\<lparr>UpstreamProjectUUID :=
                          (case gp_UpstreamProjectUUID project of
                             Some u \<Rightarrow> StringValue u
                           | None \<Rightarrow> StringNull)\<rparr>
           in \<lparr>Diagnostics = [],
               State = StateSet state4,
               Calls = [Call_GetProjectV1 (ValueString (ProjectUUID state))]\<rparr>))"

text \<open>\<^verbatim>\<open>Update\<close> of the first document (lines 431 to 438): neither argument is read.\<close>

definition projectResource_Update ::
  "env \<Rightarrow> projectResourceModel \<Rightarrow> projectResourceModel \<Rightarrow> projectResourceModel response" where
  "projectResource_Update c plan state =
     \<lparr>Diagnostics =
        AddError ''Update not supported''
          (Lit ''Lightdash projects are immutable. Any changes require destroying and recreating the resource.'')
          [],
      State = Untouched,
      Calls = []\<rparr>"

text \<open>\<^verbatim>\<open>Update\<close> of the second document (lines 756 to 818).\<close>

definition projectResource_Update_rev2 ::
  "env \<Rightarrow> projectResourceModel \<Rightarrow> projectResourceModel \<Rightarrow> projectResourceModel response" where
  "projectResource_Update_rev2 c plan state =
     (let updateReq =
            \<lparr>up_Name = ValueString (Name plan),
             up_DbtConnection = build_dbtConnection plan,
             up_DbtVersion = ValueString (DbtVersion plan),
             up_OrganizationWarehouseCredentialsUUID =
               String_ptr (OrganizationWarehouseCredentialsUUID plan),
             up_WarehouseConnection = None\<rparr>
      in case UpdateProjectV1 c (ValueString (ProjectUUID plan)) updateReq of
           Inl err \<Rightarrow>
             \<lparr>Diagnostics =
                AddError ''Error Updating project''
                  (Fmt ''Could not update project with UUID '%s', unexpected error: %s''
                     [Lit (ValueString (ProjectUUID plan)), err]) [],
              State = Untouched,
              Calls = [Call_UpdateProjectV1 (ValueString (ProjectUUID plan)) updateReq]\<rparr>
         | Inr updatedProject \<Rightarrow>
             \<lparr>Diagnostics = [],
              State = StateSet (plan\<lparr>Name := StringValue (pr_Name updatedProject)\<rparr>),
              Calls = [Call_UpdateProjectV1 (ValueString (ProjectUUID plan)) updateReq]\<rparr>)"

text \<open>\<^verbatim>\<open>Delete\<close> of the first document (lines 440 to 448): the state is not read.\<close>

definition projectResource_Delete ::
  "env \<Rightarrow> projectResourceModel \<Rightarrow> projectResourceModel response" where
  "projectResource_Delete c state =
     \<lparr>Diagnostics =
        AddWarning ''Project not deleted''
          (Lit ''The Lightdash project was removed from Terraform state but still exists in Lightdash. You must manually delete it from the Lightdash UI if desired.'')
          [],
      State = Untouched,
      Calls = []\<rparr>"

text \<open>\<^verbatim>\<open>Delete\<close> of the second document (lines 820 to 839).\<close>

definition projectResource_Delete_rev2 ::
  "env \<Rightarrow> projectResourceModel \<Rightarrow> projectResourceModel response" where
  "projectResource_Delete_rev2 c state =
     (let uuid = ValueString (ProjectUUID state)
      in case DeleteProjectV1 c uuid of
           Some err \<Rightarrow>
             \<lparr>Diagnostics =
                AddError ''Error Deleting project''
                  (Cat (Lit ''Could not delete project, unexpected error: '') err) [],
              State = Untouched,
              Calls = [Call_DeleteProjectV1 uuid]\<rparr>
         | None \<Rightarrow> \<lparr>Diagnostics = [], State = Untouched, Calls = [Call_DeleteProjectV1 uuid]\<rparr>)"

subsection \<open>Import: the composite ID\<close>

text \<open>
  Modelled from the spec: \<^verbatim>\<open>extractStrings(input, pattern)\<close>, the helper that
  \<^verbatim>\<open>extractProjectResourceId\<close> calls, is not among the files at hand. The spec says that a
  composite ID is parsed "via a fixed pattern" and that "malformed IDs fail with a parse
  error naming the expected shape". The model matches the whole input against the pattern
  and returns the captured groups, or an error that carries the pattern. It reads the
  pattern language of the one call in the repository: \<^verbatim>\<open>^\<close> at the start, \<^verbatim>\<open>$\<close> at the
  end, and between them characters that stand for themselves and the group
  \<^verbatim>\<open>([^/]+)\<close>. A group takes the longest run first and gives back characters when the
  rest does not match, as Go's regexp does. A pattern outside this language has no model:
  the result is \<open>None\<close>. The wording of the error is not known; only that it names the
  pattern.
\<close>

datatype item = Chr char | Grp

definition group_syntax :: string where
  "group_syntax = ''([^/]+)''"

definition is_literal :: "char \<Rightarrow> bool" where
  "is_literal c = (c \<notin> set ''.+*?()|[]{}^$'' \<and> c \<noteq> CHR 0x5C)"

fun parse_items :: "string \<Rightarrow> item list option" where
  "parse_items [] = Some []"
| "parse_items (c # cs) =
     (if take 7 (c # cs) = group_syntax then map_option (Cons Grp) (parse_items (drop 6 cs))
      else if is_literal c then map_option (Cons (Chr c)) (parse_items cs)
      else None)"

definition parse_pattern :: "string \<Rightarrow> item list option" where
  "parse_pattern pattern =
     (case pattern of
        [] \<Rightarrow> None
      | c # cs \<Rightarrow>
          if c = CHR ''^'' \<and> cs \<noteq> [] \<and> last cs = CHR ''$'' then parse_items (butlast cs)
          else None)"

fun first_some :: "'a option list \<Rightarrow> 'a option" where
  "first_some [] = None"
| "first_some (Some x # _) = Some x"
| "first_some (None # xs) = first_some xs"

fun match_items :: "item list \<Rightarrow> string \<Rightarrow> string list option" where
  "match_items [] s = (if s = [] then Some [] else None)"
| "match_items (Chr c # its) s =
     (case s of [] \<Rightarrow> None | x # xs \<Rightarrow> if x = c then match_items its xs else None)"
| "match_items (Grp # its) s =
     first_some
       (map (\<lambda>k. map_option (Cons (take k s)) (match_items its (drop k s)))
            (rev [1..<Suc (length (takeWhile (\<lambda>x. x \<noteq> CHR ''/'') s))]))"

definition extractStrings :: "string \<Rightarrow> string \<Rightarrow> (error + string list) option" where
  "extractStrings input pattern =
     (case parse_pattern pattern of
        None \<Rightarrow> None
      | Some its \<Rightarrow>
          Some (case match_items its input of
                  None \<Rightarrow> Inl (Fmt ''no match for pattern %s: %s'' [Lit pattern, Lit input])
                | Some groups \<Rightarrow> Inr groups))"

text \<open>\<^verbatim>\<open>xs[i]\<close> on a slice: \<open>None\<close> is the panic of an index out of range.\<close>

definition index :: "'a list \<Rightarrow> nat \<Rightarrow> 'a option" where
  "index xs i = (if i < length xs then Some (xs ! i) else None)"

text \<open>
  \<^verbatim>\<open>extractProjectResourceId\<close> (lines 895 to 905). \<open>None\<close>: the function does not return
  (a panic of \<^verbatim>\<open>groups[0]\<close> or \<^verbatim>\<open>groups[1]\<close>, or no model of the pattern).
\<close>

definition extractProjectResourceId :: "string \<Rightarrow> (error + string list) option" where
  "extractProjectResourceId input =
     (let pattern = ''^organizations/([^/]+)/projects/([^/]+)$''
      in case extractStrings input pattern of
           None \<Rightarrow> None
         | Some (Inl err) \<Rightarrow> Some (Inl (Fmt ''could not extract resource ID: %w'' [err]))
         | Some (Inr groups) \<Rightarrow>
             (case index groups 0 of
                None \<Rightarrow> None
              | Some organizationUUID \<Rightarrow>
                  (case index groups 1 of
                     None \<Rightarrow> None
                   | Some projectUUID \<Rightarrow> Some (Inr [organizationUUID, projectUUID]))))"

text \<open>The state of an import before any attribute is set: every attribute null.\<close>

definition empty_state :: projectResourceModel where
  "empty_state =
     \<lparr>ID = StringNull, OrganizationUUID = StringNull, ProjectUUID = StringNull,
      Name = StringNull, Type = StringNull, DbtVersion = StringNull, DbtConnection = None,
      OrganizationWarehouseCredentialsUUID = StringNull, WarehouseConnection = None,
      UpstreamProjectUUID = StringNull\<rparr>"

text \<open>The calls of \<^verbatim>\<open>resp.State.SetAttribute\<close> of \<^verbatim>\<open>ImportState\<close> (lines 864 to 881).\<close>

definition imported_state :: "string \<Rightarrow> GetProjectV1Results \<Rightarrow> projectResourceModel" where
  "imported_state reqID importedProject =
     (let s1 = empty_state\<lparr>ID := StringValue reqID,
                           OrganizationUUID := StringValue (gp_OrganizationUUID importedProject),
                           ProjectUUID := StringValue (gp_ProjectUUID importedProject),
                           Name := StringValue (gp_ProjectName importedProject),
                           Type := StringValue (gp_ProjectType importedProject)\<rparr>;
          s2 = (if gp_DbtVersion importedProject \<noteq> []
                then s1\<lparr>DbtVersion := StringValue (gp_DbtVersion importedProject)\<rparr>
                else s1);
          s3 = (case gp_OrganizationWarehouseCredentialsUUID importedProject of
                  Some u \<Rightarrow> s2\<lparr>OrganizationWarehouseCredentialsUUID := StringValue u\<rparr>
                | None \<Rightarrow> s2)
      in case gp_UpstreamProjectUUID importedProject of
           Some u \<Rightarrow> s3\<lparr>UpstreamProjectUUID := StringValue u\<rparr>
         | None \<Rightarrow> s3)"

text \<open>
  \<^verbatim>\<open>ImportState\<close> (lines 841 to 889, second document only). \<open>None\<close>: the function does not
  return (a panic of \<^verbatim>\<open>extractedStrings[0]\<close> or \<^verbatim>\<open>extractedStrings[1]\<close>, or
  \<^verbatim>\<open>extractProjectResourceId\<close> did not return).
\<close>

definition projectResource_ImportState ::
  "env \<Rightarrow> string \<Rightarrow> projectResourceModel response option" where
  "projectResource_ImportState c reqID =
     (case extractProjectResourceId reqID of
        None \<Rightarrow> None
      | Some (Inl err) \<Rightarrow>
          Some \<lparr>Diagnostics =
                  AddError ''Error extracting resource ID''
                    (Cat (Lit ''Could not extract resource ID, unexpected error: '') err) [],
                State = Untouched,
                Calls = []\<rparr>
      | Some (Inr extractedStrings) \<Rightarrow>
          (case index extractedStrings 0 of
             None \<Rightarrow> None
           | Some organizationUUID \<Rightarrow>
               (case index extractedStrings 1 of
                  None \<Rightarrow> None
                | Some projectUUID \<Rightarrow>
                    Some (case GetProjectV1 c projectUUID of
                            Inl err \<Rightarrow>
                              \<lparr>Diagnostics =
                                 AddError ''Error Getting project''
                                   (Fmt ''Could not get project with organization UUID %s and project UUID %s, unexpected error: %s''
                                      [Lit organizationUUID, Lit projectUUID, err]) [],
                               State = Untouched,
                               Calls = [Call_GetProjectV1 projectUUID]\<rparr>
                          | Inr importedProject \<Rightarrow>
                              \<lparr>Diagnostics =
                                 AddWarning ''DBT Connection not imported''
                                   (Lit ''The dbt connection credentials (personal_access_token, etc.) are not returned by the API for security reasons. You must manually configure these in your Terraform configuration.'')
                                   [],
                               State = StateSet (imported_state reqID importedProject),
                               Calls = [Call_GetProjectV1 projectUUID]\<rparr>))))"

text \<open>Whether a message carries a given string among its constants and arguments.\<close>

fun mentions :: "message \<Rightarrow> string \<Rightarrow> bool" where
  "mentions (Lit t) s = (t = s)"
| "mentions (Bytes t) s = False"
| "mentions (Doc j) s = False"
| "mentions (Cat a b) s = (mentions a s \<or> mentions b s)"
| "mentions (Fmt f args) s = list_ex (\<lambda>a. mentions a s) args"

section \<open>internal/provider: the lightdash\_personal\_access\_token resource\<close>

text \<open>The Go file that follows the README text in README.md.\<close>

record personalAccessTokenResourceModel =
  tr_ID :: types_String
  tr_TokenUUID :: types_String
  tr_Description :: types_String
  tr_ExpiresAt :: types_String
  tr_CreatedAt :: types_String
  tr_Token :: types_String

definition getPersonalAccessTokenResourceId :: "string \<Rightarrow> string" where
  "getPersonalAccessTokenResourceId tokenUuid = ''personal-access-tokens/'' @ tokenUuid"

definition personalAccessTokenResource_Create ::
  "env \<Rightarrow> personalAccessTokenResourceModel \<Rightarrow> personalAccessTokenResourceModel response" where
  "personalAccessTokenResource_Create c plan =
     (let createRequest =
            \<lparr>cpat_Description = ValueString (tr_Description plan),
             cpat_AutoGenerated = False,
             cpat_ExpiresAt =
               (if \<not> IsNull (tr_ExpiresAt plan) \<and> \<not> IsUnknown (tr_ExpiresAt plan)
                then Some (ValueString (tr_ExpiresAt plan)) else None)\<rparr>
      in case CreatePersonalAccessTokenV1 c createRequest of
           Inl err \<Rightarrow>
             \<lparr>Diagnostics =
                AddError ''Error creating personal access token''
                  (Cat (Lit ''Could not create personal access token, unexpected error: '') err)
                  [],
              State = Untouched,
              Calls = [Call_CreatePersonalAccessTokenV1 createRequest]\<rparr>
         | Inr createdToken \<Rightarrow>
             \<lparr>Diagnostics = [],
              State = StateSet
                (plan\<lparr>tr_ID := StringValue
                               (getPersonalAccessTokenResourceId (patw_UUID createdToken)),
                      tr_TokenUUID := StringValue (patw_UUID createdToken),
                      tr_Description := StringValue (patw_Description createdToken),
                      tr_CreatedAt := StringValue (patw_CreatedAt createdToken),
                      tr_Token := StringValue (patw_Token createdToken),
                      tr_ExpiresAt :=
                        (case patw_ExpiresAt createdToken of
                           Some e \<Rightarrow> StringValue e
                         | None \<Rightarrow> StringNull)\<rparr>),
              Calls = [Call_CreatePersonalAccessTokenV1 createRequest]\<rparr>)"

text \<open>The loop of \<^verbatim>\<open>Read\<close> that looks for the token: the first one whose UUID matches.\<close>

fun find_token :: "PersonalAccessToken list \<Rightarrow> string \<Rightarrow> PersonalAccessToken option" where
  "find_token [] tokenUuid = None"
| "find_token (token # tokens) tokenUuid =
     (if pat_UUID token = tokenUuid then Some token else find_token tokens tokenUuid)"

definition personalAccessTokenResource_Read ::
  "env \<Rightarrow> personalAccessTokenResourceModel \<Rightarrow> personalAccessTokenResourceModel response" where
  "personalAccessTokenResource_Read c state =
     (let tokenUuid = ValueString (tr_TokenUUID state)
      in case ListPersonalAccessTokensV1 c of
           Inl err \<Rightarrow>
             \<lparr>Diagnostics =
                AddError ''Error Reading personal access token''
                  (Cat (Cat (Cat (Lit ''Could not read personal access token ID '')
                                 (Lit (ValueString (tr_ID state))))
                            (Lit '': '')) err) [],
              State = Untouched,
              Calls = [Call_ListPersonalAccessTokensV1]\<rparr>
         | Inr tokens \<Rightarrow>
             (case find_token tokens tokenUuid of
                None \<Rightarrow>
                  \<lparr>Diagnostics = [], State = RemoveResource,
                   Calls = [Call_ListPersonalAccessTokensV1]\<rparr>
              | Some foundToken \<Rightarrow>
                  \<lparr>Diagnostics = [],
                   State = StateSet
                     (state\<lparr>tr_Description := StringValue (pat_Description foundToken),
                            tr_CreatedAt := StringValue (pat_CreatedAt foundToken),
                            tr_ExpiresAt :=
                              (case pat_ExpiresAt foundToken of
                                 Some e \<Rightarrow> StringValue e
                               | None \<Rightarrow> StringNull)\<rparr>),
                   Calls = [Call_ListPersonalAccessTokensV1]\<rparr>))"

section \<open>internal/provider: the lightdash\_personal\_access\_tokens data source\<close>

text \<open>The second document of unnamed/part\_002.\<close>

record personalAccessTokenModel =
  TokenUUID :: types_String
  Description :: types_String
  CreatedAt :: types_String
  ExpiresAt :: types_String
  RotatedAt :: types_String
  LastUsedAt :: types_String

record personalAccessTokensDataSourceModel =
  ds_ID :: types_String
  Tokens :: "personalAccessTokenModel list"

definition nullable :: "string option \<Rightarrow> types_String" where
  "nullable v = (case v of Some s \<Rightarrow> StringValue s | None \<Rightarrow> StringNull)"

text \<open>The body of the loop "Convert to model", and the loop with its \<^verbatim>\<open>append\<close>.\<close>

definition fetchedToken :: "PersonalAccessToken \<Rightarrow> personalAccessTokenModel" where
  "fetchedToken token =
     \<lparr>TokenUUID = StringValue (pat_UUID token),
      Description = StringValue (pat_Description token),
      CreatedAt = StringValue (pat_CreatedAt token),
      ExpiresAt = nullable (pat_ExpiresAt token),
      RotatedAt = nullable (pat_RotatedAt token),
      LastUsedAt = nullable (pat_LastUsedAt token)\<rparr>"

fun convert_tokens ::
  "PersonalAccessToken list \<Rightarrow> personalAccessTokenModel list \<Rightarrow> personalAccessTokenModel list"
where
  "convert_tokens [] fetchedTokens = fetchedTokens"
| "convert_tokens (token # tokens) fetchedTokens =
     convert_tokens tokens (fetchedTokens @ [fetchedToken token])"

text \<open>
  \<^verbatim>\<open>sort.Slice(xs, less)\<close> of Go's library reorders the slice so that no element is
  less than one before it, and fixes no order among elements neither of which is less
  than the other. The model takes the elements from the right and puts each in front of
  the first element that is not less than it (\<open>lt\<close> is the argument \<^verbatim>\<open>less\<close>).
\<close>

fun place :: "('a \<Rightarrow> 'a \<Rightarrow> bool) \<Rightarrow> 'a \<Rightarrow> 'a list \<Rightarrow> 'a list" where
  "place lt x [] = [x]"
| "place lt x (y # ys) = (if lt y x then y # place lt x ys else x # y # ys)"

definition sort_Slice :: "('a \<Rightarrow> 'a \<Rightarrow> bool) \<Rightarrow> 'a list \<Rightarrow> 'a list" where
  "sort_Slice lt xs = foldr (place lt) xs []"

definition less_TokenUUID :: "personalAccessTokenModel \<Rightarrow> personalAccessTokenModel \<Rightarrow> bool" where
  "less_TokenUUID a b = (ValueString (TokenUUID a) < ValueString (TokenUUID b))"

definition personalAccessTokensDataSource_Read ::
  "env \<Rightarrow> personalAccessTokensDataSourceModel \<Rightarrow> personalAccessTokensDataSourceModel response"
where
  "personalAccessTokensDataSource_Read c state =
     (case ListPersonalAccessTokensV1 c of
        Inl err \<Rightarrow>
          \<lparr>Diagnostics = AddError ''Unable to get personal access tokens'' err [],
           State = Untouched,
           Calls = [Call_ListPersonalAccessTokensV1]\<rparr>
      | Inr tokens \<Rightarrow>
          (let fetchedTokens = sort_Slice less_TokenUUID (convert_tokens tokens [])
           in \<lparr>Diagnostics = [],
               State = StateSet
                 (state\<lparr>ds_ID := StringValue ''personal-access-tokens'',
                        Tokens := fetchedTokens\<rparr>),
               Calls = [Call_ListPersonalAccessTokensV1]\<rparr>))"

section \<open>Reading a JSON object\<close>

text \<open>
  The members of a JSON object, their keys in order, and the value under a key. They
  serve to state what a request body contains.
\<close>

definition members :: "json \<Rightarrow> (string \<times> json) list" where
  "members j = (case j of JObject ms \<Rightarrow> ms | _ \<Rightarrow> [])"

definition keys :: "json \<Rightarrow> string list" where
  "keys j = map fst (members j)"

definition field :: "json \<Rightarrow> string \<Rightarrow> json option" where
  "field j k = map_of (members j) k"

text \<open>
  What the spec asks of the body of a create request, in its words: "only fields
  explicitly set (absent optional fields are omitted, not defaulted to empty values)". The
  keys of the body are the four required ones followed by those optional ones that the plan
  sets; an optional string is sent with its value when set and has no member when null;
  the same holds inside the dbt connection. \<open>warehouse\<close> says whether the plan has a
  \<^verbatim>\<open>warehouse_connection\<close> block.
\<close>

definition sent_if_set :: "types_String \<Rightarrow> json option" where
  "sent_if_set x = (if IsNull x then None else Some (JString (ValueString x)))"

definition dbt_keys_as_set :: "dbtConnectionModel \<Rightarrow> string list" where
  "dbt_keys_as_set d =
     [''type'', ''authorization_method'']
     @ (if IsNull (dbt_PersonalAccessToken d) then [] else [''personal_access_token''])
     @ [''repository'', ''branch'', ''project_sub_path'']
     @ (if IsNull (dbt_HostDomain d) then [] else [''host_domain''])
     @ (if IsNull (dbt_Target d) then [] else [''target''])"

definition body_keys_as_set :: "projectResourceModel \<Rightarrow> bool \<Rightarrow> string list" where
  "body_keys_as_set plan warehouse =
     [''name'', ''type'', ''dbtConnection'', ''dbtVersion'']
     @ (if IsNull (OrganizationWarehouseCredentialsUUID plan) then []
        else [''organizationWarehouseCredentialsUuid''])
     @ (if warehouse then [''warehouseConnection''] else [])
     @ (if IsNull (UpstreamProjectUUID plan) then [] else [''upstreamProjectUuid''])"

definition only_set_fields ::
  "projectResourceModel \<Rightarrow> dbtConnectionModel \<Rightarrow> bool \<Rightarrow> json \<Rightarrow> bool" where
  "only_set_fields plan d warehouse body =
     (keys body = body_keys_as_set plan warehouse
      \<and> field body ''organizationWarehouseCredentialsUuid''
          = sent_if_set (OrganizationWarehouseCredentialsUUID plan)
      \<and> field body ''upstreamProjectUuid'' = sent_if_set (UpstreamProjectUUID plan)
      \<and> (case field body ''dbtConnection'' of
            None \<Rightarrow> False
          | Some dbt \<Rightarrow>
              keys dbt = dbt_keys_as_set d
              \<and> field dbt ''personal_access_token'' = sent_if_set (dbt_PersonalAccessToken d)
              \<and> field dbt ''host_domain'' = sent_if_set (dbt_HostDomain d)
              \<and> field dbt ''target'' = sent_if_set (dbt_Target d)))"

section \<open>Concrete inputs\<close>

text \<open>
  A preview project as in examples/resources/lightdash\_project/resource.tf, a server that
  answers every request, and variations of both.
\<close>

definition example_dbt :: dbtConnectionModel where
  "example_dbt =
     \<lparr>dbt_Type = StringValue ''github'',
      dbt_AuthorizationMethod = StringValue ''personal_access_token'',
      dbt_PersonalAccessToken = StringValue ''ghp_secret'',
      dbt_Repository = StringValue ''my-org/dbt-project'',
      dbt_Branch = StringValue ''feature/new-metrics'',
      dbt_ProjectSubPath = StringValue ''/'',
      dbt_HostDomain = StringNull,
      dbt_Target = StringValue ''dev''\<rparr>"

definition example_plan :: projectResourceModel where
  "example_plan =
     \<lparr>ID = StringUnknown,
      OrganizationUUID = StringValue ''org-1'',
      ProjectUUID = StringUnknown,
      Name = StringValue ''Preview Project'',
      Type = StringValue ''PREVIEW'',
      DbtVersion = StringValue ''v1.8'',
      DbtConnection = Some example_dbt,
      OrganizationWarehouseCredentialsUUID = StringNull,
      WarehouseConnection = None,
      UpstreamProjectUUID = StringValue ''proj-0''\<rparr>"

definition example_state :: projectResourceModel where
  "example_state =
     example_plan\<lparr>ID := StringValue ''organizations/org-1/projects/proj-1'',
                  ProjectUUID := StringValue ''proj-1''\<rparr>"

definition example_warehouse :: warehouseConnectionModel where
  "example_warehouse =
     \<lparr>wh_Type = StringValue ''bigquery'', wh_Project = StringValue ''my-gcp-project-id'',
      wh_Dataset = StringValue ''my_dataset'', wh_KeyfileContents = StringValue ''not json'',
      wh_AuthenticationType = StringNull, wh_Location = StringNull,
      wh_TimeoutSeconds = Int64Null, wh_MaximumBytesBilled = Int64Null,
      wh_Priority = StringValue ''INTERACTIVE'', wh_Retries = Int64Value 3,
      wh_StartOfWeek = Int64Null\<rparr>"

definition example_project :: Project where
  "example_project =
     \<lparr>pr_OrganizationUUID = ''org-1'', pr_ProjectUUID = ''proj-1'',
      pr_Name = ''Preview Project'', pr_Type = ''PREVIEW'', pr_DbtConnection = None,
      pr_DbtVersion = ''v1.8'', pr_OrganizationWarehouseCredentialsUUID = None,
      pr_WarehouseConnection = None, pr_UpstreamProjectUUID = Some ''proj-0'',
      pr_PinnedListUUID = None, pr_SchedulerTimezone = None\<rparr>"

text \<open>The project as the server holds it: in another organization, renamed.\<close>

definition example_remote :: GetProjectV1Results where
  "example_remote =
     \<lparr>gp_OrganizationUUID = ''org-2'', gp_ProjectUUID = ''proj-1'',
      gp_ProjectName = ''Renamed Project'', gp_ProjectType = ''PREVIEW'',
      gp_DbtVersion = [], gp_OrganizationWarehouseCredentialsUUID = Some ''cred-1'',
      gp_UpstreamProjectUUID = None\<rparr>"

definition example_tokens :: "PersonalAccessToken list" where
  "example_tokens =
     [\<lparr>pat_UUID = ''b2'', pat_Description = ''second'', pat_CreatedAt = ''2024-02-01'',
       pat_ExpiresAt = None, pat_RotatedAt = None, pat_LastUsedAt = None\<rparr>,
      \<lparr>pat_UUID = ''a1'', pat_Description = ''first'', pat_CreatedAt = ''2024-01-01'',
       pat_ExpiresAt = Some ''2024-12-31T23:59:59Z'', pat_RotatedAt = None,
       pat_LastUsedAt = None\<rparr>]"

definition example_token_plan :: personalAccessTokenResourceModel where
  "example_token_plan =
     \<lparr>tr_ID = StringUnknown, tr_TokenUUID = StringUnknown,
      tr_Description = StringValue ''CI/CD pipeline token'', tr_ExpiresAt = StringNull,
      tr_CreatedAt = StringUnknown, tr_Token = StringUnknown\<rparr>"

definition example_created_token :: PersonalAccessTokenWithToken where
  "example_created_token =
     \<lparr>patw_UUID = ''tok-1'', patw_Description = ''CI/CD pipeline token'',
      patw_CreatedAt = ''2024-01-01'', patw_ExpiresAt = None, patw_Token = ''ldpat_secret''\<rparr>"

definition example_env :: env where
  "example_env =
     \<lparr>HostUrl = ''https://lightdash.example'',
      doRequest = (\<lambda>r. Inr ''{}''),
      GetProjectV1 = (\<lambda>u. Inr example_remote),
      DeleteProjectV1 = (\<lambda>u. None),
      NewRequest_error = (\<lambda>m u. None),
      Unmarshal_CreateProjectV1Response =
        (\<lambda>b. Inr \<lparr>cpr_Results = \<lparr>res_HasContentCopy = False, res_ContentCopyError = None,
                                   res_Project = example_project\<rparr>,
                    cpr_Status = ''ok''\<rparr>),
      Unmarshal_UpdateProjectV1Response =
        (\<lambda>b. Inr \<lparr>upr_Results = example_project, upr_Status = ''ok''\<rparr>),
      Unmarshal_CreatePersonalAccessTokenV1Response =
        (\<lambda>b. Inr \<lparr>cpatr_Results = example_created_token, cpatr_Status = ''ok''\<rparr>),
      Unmarshal_ListPersonalAccessTokensV1Response =
        (\<lambda>b. Inr \<lparr>lpat_Results = example_tokens, lpat_Status = ''ok''\<rparr>),
      Unmarshal_keyfile =
        (\<lambda>s. if s = ''{}'' then Inr (JObject []) else Inl (Lit ''invalid character'')),
      Marshal_WarehouseCredentials = (\<lambda>w. Inr (JObject [])),
      Marshal_CreatePersonalAccessToken = (\<lambda>r. Inr (JObject [])),
      ToLower = (\<lambda>s. s)\<rparr>"

text \<open>A server whose answers to the two create requests decode to an empty UUID.\<close>

definition no_uuid_env :: env where
  "no_uuid_env =
     example_env
       \<lparr>Unmarshal_CreateProjectV1Response :=
          (\<lambda>b. Inr \<lparr>cpr_Results = \<lparr>res_HasContentCopy = False, res_ContentCopyError = None,
                                     res_Project = example_project\<lparr>pr_ProjectUUID := []\<rparr>\<rparr>,
                      cpr_Status = ''ok''\<rparr>),
        Unmarshal_CreatePersonalAccessTokenV1Response :=
          (\<lambda>b. Inr \<lparr>cpatr_Results = example_created_token\<lparr>patw_UUID := []\<rparr>,
                      cpatr_Status = ''ok''\<rparr>)\<rparr>"

text \<open>A server on which the project no longer exists.\<close>

definition not_found_env :: env where
  "not_found_env = example_env\<lparr>GetProjectV1 := (\<lambda>u. Inl (Lit ''404 Not Found''))\<rparr>"

definition example_createReq :: CreateProject where
  "example_createReq =
     \<lparr>cp_Name = ''Preview Project'',
      cp_Type = ''PREVIEW'',
      cp_DbtConnection =
        Some \<lparr>cfg_Type = ''github'',
              cfg_AuthorizationMethod = ''personal_access_token'',
              cfg_PersonalAccessToken = Some ''ghp_secret'',
              cfg_InstallationID = None,
              cfg_Repository = ''my-org/dbt-project'',
              cfg_Branch = ''feature/new-metrics'',
              cfg_ProjectSubPath = ''/'',
              cfg_HostDomain = None,
              cfg_Target = Some ''dev'',
              cfg_Environment = None,
              cfg_Selector = None\<rparr>,
      cp_DbtVersion = ''v1.8'',
      cp_OrganizationWarehouseCredentialsUUID = None,
      cp_WarehouseConnection = None,
      cp_UpstreamProjectUUID = Some ''proj-0'',
      cp_CopyWarehouseConnectionFromUpstreamProject = None\<rparr>"

definition example_body :: json where
  "example_body =
     JObject
       [(''name'', JString ''Preview Project''),
        (''type'', JString ''PREVIEW''),
        (''dbtConnection'',
           JObject
             [(''type'', JString ''github''),
              (''authorization_method'', JString ''personal_access_token''),
              (''personal_access_token'', JString ''ghp_secret''),
              (''repository'', JString ''my-org/dbt-project''),
              (''branch'', JString ''feature/new-metrics''),
              (''project_sub_path'', JString ''/''),
              (''target'', JString ''dev'')]),
        (''dbtVersion'', JString ''v1.8''),
        (''upstreamProjectUuid'', JString ''proj-0'')]"

definition example_token_request :: CreatePersonalAccessToken where
  "example_token_request =
     \<lparr>cpat_Description = ''CI/CD pipeline token'', cpat_AutoGenerated = False,
      cpat_ExpiresAt = None\<rparr>"

section \<open>Facts about the definitions\<close>

lemmas example_defs = example_env_def example_plan_def example_state_def example_dbt_def
  example_project_def example_remote_def example_tokens_def example_token_plan_def
  example_created_token_def example_warehouse_def no_uuid_env_def not_found_env_def
  example_createReq_def example_body_def example_token_request_def

lemmas api_defs = CreateProjectV1_def UpdateProjectV1_def CreatePersonalAccessTokenV1_def
  ListPersonalAccessTokensV1_def NewRequest_def Marshal_CreateProject_def
  Marshal_UpdateProject_def Marshal_warehouseConnection_def Marshal_dbtConnection_def
  Marshal_DbtGithubProjectConfig_def omitempty_def omitempty_slice_def

lemmas provider_defs = projectResource_Create_def projectResource_Create_rev2_def
  Create_send_def build_createReq_def build_dbtConnection_def build_warehouseConn_def
  String_ptr_def Int64_ptr_def getProjectResourceId_def DbtProjectTypeGithub_def
  AddError_def AddWarning_def HasError_def

subsection \<open>The pattern of the composite ID\<close>

lemma parse_project_pattern:
  "parse_pattern ''^organizations/([^/]+)/projects/([^/]+)$'' =
     Some (map Chr ''organizations/'' @ Grp # map Chr ''/projects/'' @ [Grp])"
  by (simp add: parse_pattern_def group_syntax_def is_literal_def)

lemma match_items_literal:
  "match_items (map Chr lit @ rest) s =
     (if take (length lit) s = lit then match_items rest (drop (length lit) s) else None)"
proof (induction lit arbitrary: s)
  case Nil
  show ?case by simp
next
  case (Cons a lit)
  show ?case
  proof (cases s)
    case Nil
    then show ?thesis by simp
  next
    case (Cons x xs)
    then show ?thesis using Cons.IH [of xs] by auto
  qed
qed

lemma first_some_member: "first_some xs = Some y \<Longrightarrow> Some y \<in> set xs"
  by (induction xs rule: first_some.induct) auto

lemma match_items_group:
  assumes "match_items (Grp # rest) s = Some gs"
  shows "\<exists>k gs'. 1 \<le> k \<and> k \<le> length (takeWhile (\<lambda>x. x \<noteq> CHR ''/'') s) \<and>
            gs = take k s # gs' \<and> match_items rest (drop k s) = Some gs'"
proof -
  from assms have "Some gs \<in> set (map (\<lambda>k. map_option (Cons (take k s)) (match_items rest (drop k s)))
            (rev [1..<Suc (length (takeWhile (\<lambda>x. x \<noteq> CHR ''/'') s))]))"
    by (intro first_some_member) simp
  then obtain k where k: "k \<in> set [1..<Suc (length (takeWhile (\<lambda>x. x \<noteq> CHR ''/'') s))]"
      and eq: "Some gs = map_option (Cons (take k s)) (match_items rest (drop k s))"
    by auto
  from eq obtain gs' where "match_items rest (drop k s) = Some gs'" "gs = take k s # gs'"
    by (cases "match_items rest (drop k s)") auto
  with k show ?thesis by auto
qed

lemma take_within_takeWhile:
  assumes "k \<le> length (takeWhile P s)"
  shows "\<forall>x \<in> set (take k s). P x"
proof -
  have "take k s = take k (takeWhile P s @ dropWhile P s)" by simp
  also have "\<dots> = take k (takeWhile P s)" using assms by (simp del: takeWhile_dropWhile_id)
  finally have "set (take k s) \<subseteq> set (takeWhile P s)" by (metis set_take_subset)
  then show ?thesis by (auto dest: set_takeWhileD)
qed

lemma match_items_group_longest:
  assumes "g \<noteq> []" and "\<forall>x \<in> set g. x \<noteq> CHR ''/''"
      and "t = [] \<or> hd t = CHR ''/''"
      and "match_items rest t = Some gs"
  shows "match_items (Grp # rest) (g @ t) = Some (g # gs)"
proof -
  have tw: "takeWhile (\<lambda>x. x \<noteq> CHR ''/'') (g @ t) = g"
  proof (cases t)
    case Nil
    then show ?thesis using assms(2) by simp
  next
    case (Cons a t')
    with assms(3) have "a = CHR ''/''" by simp
    with Cons assms(2) show ?thesis by (simp add: takeWhile_tail)
  qed
  from assms(1) have len: "1 \<le> length g" by (cases g) auto
  then have "rev [1..<Suc (length g)] = length g # rev [1..<length g]" by simp
  then show ?thesis using assms(4) by (simp add: tw)
qed

lemma match_project_items_sound:
  assumes "match_items (map Chr ''organizations/'' @ Grp # map Chr ''/projects/'' @ [Grp]) s
             = Some gs"
  shows "\<exists>o' p. gs = [o', p] \<and> o' \<noteq> [] \<and> p \<noteq> [] \<and> CHR ''/'' \<notin> set o' \<and> CHR ''/'' \<notin> set p \<and>
           s = ''organizations/'' @ o' @ ''/projects/'' @ p"
proof -
  let ?P = "\<lambda>x. x \<noteq> CHR ''/''"
  define s1 where "s1 = drop (length ''organizations/'') s"
  from assms have a1: "take (length ''organizations/'') s = ''organizations/''"
    and m1: "match_items (Grp # map Chr ''/projects/'' @ [Grp]) s1 = Some gs"
    unfolding s1_def match_items_literal by (auto split: if_splits)
  from match_items_group [OF m1] obtain k gs' where
    k: "1 \<le> k" "k \<le> length (takeWhile ?P s1)" and gs: "gs = take k s1 # gs'"
    and m2: "match_items (map Chr ''/projects/'' @ [Grp]) (drop k s1) = Some gs'"
    by blast
  define s2 where "s2 = drop (length ''/projects/'') (drop k s1)"
  from m2 have a2: "take (length ''/projects/'') (drop k s1) = ''/projects/''"
    and m3: "match_items [Grp] s2 = Some gs'"
    unfolding s2_def using match_items_literal [of "''/projects/''" "[Grp]" "drop k s1"]
    by (auto split: if_splits)
  from match_items_group [OF m3] obtain j gs'' where
    j: "1 \<le> j" "j \<le> length (takeWhile ?P s2)" and gs': "gs' = take j s2 # gs''"
    and m4: "match_items [] (drop j s2) = Some gs''"
    by blast
  from m4 have e: "drop j s2 = []" "gs'' = []" by (auto split: if_splits)
  then have p: "take j s2 = s2" by (metis append_Nil2 append_take_drop_id)
  have "length (takeWhile ?P s1) \<le> length s1" by (rule length_takeWhile_le)
  with k have o_ne: "take k s1 \<noteq> []" by auto
  have "length (takeWhile ?P s2) \<le> length s2" by (rule length_takeWhile_le)
  with j have p_ne: "s2 \<noteq> []" by auto
  have o_free: "CHR ''/'' \<notin> set (take k s1)" using take_within_takeWhile [OF k(2)] by blast
  have p_free: "CHR ''/'' \<notin> set s2" using take_within_takeWhile [OF j(2)] p by auto
  have "s = take (length ''organizations/'') s @ s1" by (simp add: s1_def)
  also have "s1 = take k s1 @ drop k s1" by simp
  also have "drop k s1 = take (length ''/projects/'') (drop k s1) @ s2"
    unfolding s2_def by (simp only: append_take_drop_id)
  finally have "s = ''organizations/'' @ take k s1 @ ''/projects/'' @ s2"
    using a1 a2 by simp
  with gs gs' e p o_ne p_ne o_free p_free show ?thesis by auto
qed

lemma match_project_items_complete:
  assumes "o' \<noteq> []" "p \<noteq> []" "CHR ''/'' \<notin> set o'" "CHR ''/'' \<notin> set p"
  shows "match_items (map Chr ''organizations/'' @ Grp # map Chr ''/projects/'' @ [Grp])
           (''organizations/'' @ o' @ ''/projects/'' @ p) = Some [o', p]"
proof -
  have g2: "match_items [Grp] (p @ []) = Some [p]"
    using assms by (intro match_items_group_longest) auto
  have "match_items (map Chr ''/projects/'' @ [Grp]) (''/projects/'' @ p) = Some [p]"
    using g2 unfolding match_items_literal by simp
  then have "match_items (Grp # map Chr ''/projects/'' @ [Grp]) (o' @ ''/projects/'' @ p)
               = Some [o', p]"
    using assms by (intro match_items_group_longest) auto
  then show ?thesis unfolding match_items_literal by simp
qed

lemma extractStrings_project:
  "extractStrings input ''^organizations/([^/]+)/projects/([^/]+)$'' =
     Some (case match_items (map Chr ''organizations/'' @ Grp # map Chr ''/projects/'' @ [Grp])
                  input of
             None \<Rightarrow> Inl (Fmt ''no match for pattern %s: %s''
                            [Lit ''^organizations/([^/]+)/projects/([^/]+)$'', Lit input])
           | Some groups \<Rightarrow> Inr groups)"
  unfolding extractStrings_def parse_project_pattern by simp

lemma extractProjectResourceId_match:
  assumes "o' \<noteq> []" "p \<noteq> []" "CHR ''/'' \<notin> set o'" "CHR ''/'' \<notin> set p"
  shows "extractProjectResourceId (''organizations/'' @ o' @ ''/projects/'' @ p)
           = Some (Inr [o', p])"
  unfolding extractProjectResourceId_def Let_def extractStrings_project
    match_project_items_complete [OF assms]
  by (simp add: index_def)

lemma extractProjectResourceId_no_match:
  assumes "\<not> (\<exists>o' p. o' \<noteq> [] \<and> p \<noteq> [] \<and> CHR ''/'' \<notin> set o' \<and> CHR ''/'' \<notin> set p \<and>
              input = ''organizations/'' @ o' @ ''/projects/'' @ p)"
  shows "extractProjectResourceId input =
           Some (Inl (Fmt ''could not extract resource ID: %w''
                   [Fmt ''no match for pattern %s: %s''
                      [Lit ''^organizations/([^/]+)/projects/([^/]+)$'', Lit input]]))"
proof -
  have "match_items (map Chr ''organizations/'' @ Grp # map Chr ''/projects/'' @ [Grp]) input
          = None"
  proof (rule ccontr)
    assume "match_items (map Chr ''organizations/'' @ Grp # map Chr ''/projects/'' @ [Grp]) input
              \<noteq> None"
    then obtain gs where
      "match_items (map Chr ''organizations/'' @ Grp # map Chr ''/projects/'' @ [Grp]) input
         = Some gs"
      by blast
    from match_project_items_sound [OF this] assms show False by blast
  qed
  then show ?thesis
    unfolding extractProjectResourceId_def Let_def extractStrings_project by simp
qed

lemma ImportState_match:
  assumes "o' \<noteq> []" "p \<noteq> []" "CHR ''/'' \<notin> set o'" "CHR ''/'' \<notin> set p"
  shows "projectResource_ImportState c (''organizations/'' @ o' @ ''/projects/'' @ p) =
     Some (case GetProjectV1 c p of
             Inl err \<Rightarrow>
               \<lparr>Diagnostics =
                  [\<lparr>Severity = SeverityError, Summary = ''Error Getting project'',
                    Detail = Fmt ''Could not get project with organization UUID %s and project UUID %s, unexpected error: %s''
                               [Lit o', Lit p, err]\<rparr>],
                State = Untouched,
                Calls = [Call_GetProjectV1 p]\<rparr>
           | Inr importedProject \<Rightarrow>
               \<lparr>Diagnostics =
                  [\<lparr>Severity = SeverityWarning, Summary = ''DBT Connection not imported'',
                    Detail = Lit ''The dbt connection credentials (personal_access_token, etc.) are not returned by the API for security reasons. You must manually configure these in your Terraform configuration.''\<rparr>],
                State = StateSet (imported_state (''organizations/'' @ o' @ ''/projects/'' @ p)
                                    importedProject),
                Calls = [Call_GetProjectV1 p]\<rparr>)"
  unfolding projectResource_ImportState_def extractProjectResourceId_match [OF assms]
  by (simp add: index_def AddError_def AddWarning_def split: sum.split)

lemma imported_state_ids:
  "ID (imported_state rid ip) = StringValue rid
   \<and> OrganizationUUID (imported_state rid ip) = StringValue (gp_OrganizationUUID ip)
   \<and> ProjectUUID (imported_state rid ip) = StringValue (gp_ProjectUUID ip)
   \<and> DbtConnection (imported_state rid ip) = None"
  by (simp add: imported_state_def empty_state_def Let_def split: option.split)

subsection \<open>Sorting the tokens\<close>

lemma convert_tokens_append: "convert_tokens tokens acc = acc @ map fetchedToken tokens"
  by (induction tokens arbitrary: acc) simp_all

lemma mset_place: "mset (place lt x ys) = add_mset x (mset ys)"
  by (induction ys) simp_all

lemma mset_sort_Slice: "mset (sort_Slice lt xs) = mset xs"
  by (induction xs) (simp_all add: sort_Slice_def mset_place)

lemma set_place: "set (place lt x ys) = insert x (set ys)"
  by (induction ys) auto

lemma sorted_place:
  "sorted (map (\<lambda>t. ValueString (TokenUUID t)) ys) \<Longrightarrow>
   sorted (map (\<lambda>t. ValueString (TokenUUID t)) (place less_TokenUUID x ys))"
  by (induction ys) (auto simp: set_place less_TokenUUID_def)

lemma sorted_sort_Slice:
  "sorted (map (\<lambda>t. ValueString (TokenUUID t)) (sort_Slice less_TokenUUID xs))"
  by (induction xs) (simp_all add: sort_Slice_def sorted_place)

subsection \<open>Creating\<close>

lemma CreateProjectV1_no_uuid:
  assumes "Marshal_CreateProject c project = Inr marshalled"
    and "NewRequest c ''POST'' (HostUrl c @ ''/api/v1/org/projects'') (Some marshalled) = Inr req"
    and "doRequest c req = Inr body"
    and "Unmarshal_CreateProjectV1Response c body = Inr response"
    and "pr_ProjectUUID (res_Project (cpr_Results response)) = []"
  shows "CreateProjectV1 c project = Inl (Fmt ''project UUID is missing in the response'' [])"
  using assms by (simp add: CreateProjectV1_def)

lemma CreatePersonalAccessTokenV1_no_uuid:
  assumes "Marshal_CreatePersonalAccessToken c request = Inr marshalled"
    and "NewRequest c ''POST'' (HostUrl c @ ''/api/v1/user/me/personal-access-tokens'')
           (Some marshalled) = Inr req"
    and "doRequest c req = Inr body"
    and "Unmarshal_CreatePersonalAccessTokenV1Response c body = Inr response"
    and "patw_UUID (cpatr_Results response) = []"
  shows "CreatePersonalAccessTokenV1 c request
           = Inl (Fmt ''token UUID is missing in the response'' [])"
  using assms by (simp add: CreatePersonalAccessTokenV1_def)

lemma Create_send_call:
  "cp_UpstreamProjectUUID q0 = None \<Longrightarrow>
   Calls (Create_send c plan q0) =
     [Call_CreateProjectV1 (q0\<lparr>cp_UpstreamProjectUUID := String_ptr (UpstreamProjectUUID plan)\<rparr>)]"
  by (cases q0) (simp add: Create_send_def Let_def String_ptr_def split: sum.split)

lemma build_createReq_upstream: "cp_UpstreamProjectUUID (build_createReq plan) = None"
  by (simp add: build_createReq_def)

lemma Create_send_error:
  assumes "Calls (Create_send c plan q0) = [Call_CreateProjectV1 q]"
    and "CreateProjectV1 c q = Inl err"
  shows "State (Create_send c plan q0) = Untouched
       \<and> HasError (Diagnostics (Create_send c plan q0))"
proof -
  define rq where "rq =
     (if \<not> IsNull (UpstreamProjectUUID plan)
      then q0\<lparr>cp_UpstreamProjectUUID := Some (ValueString (UpstreamProjectUUID plan))\<rparr>
      else q0)"
  have "Calls (Create_send c plan q0) = [Call_CreateProjectV1 rq]"
    unfolding Create_send_def Let_def rq_def [symmetric]
    by (cases "CreateProjectV1 c rq") simp_all
  with assms(1) have "q = rq" by simp
  with assms(2) show ?thesis
    unfolding Create_send_def Let_def rq_def [symmetric]
    by (simp add: AddError_def HasError_def)
qed

lemma Create_error:
  assumes "Calls (projectResource_Create c plan) = [Call_CreateProjectV1 q]"
    and "CreateProjectV1 c q = Inl err"
  shows "State (projectResource_Create c plan) = Untouched
       \<and> HasError (Diagnostics (projectResource_Create c plan))"
  using assms
  by (auto simp: projectResource_Create_def Let_def dest: Create_send_error
      split: option.splits sum.splits)

lemma Create_rev2_error:
  assumes "Calls (projectResource_Create_rev2 c plan) = [Call_CreateProjectV1 q]"
    and "CreateProjectV1 c q = Inl err"
  shows "State (projectResource_Create_rev2 c plan) = Untouched
       \<and> HasError (Diagnostics (projectResource_Create_rev2 c plan))"
  using assms unfolding projectResource_Create_rev2_def by (rule Create_send_error)

lemma token_Create_error:
  assumes "Calls (personalAccessTokenResource_Create c plan)
             = [Call_CreatePersonalAccessTokenV1 q]"
    and "CreatePersonalAccessTokenV1 c q = Inl err"
  shows "State (personalAccessTokenResource_Create c plan) = Untouched
       \<and> HasError (Diagnostics (personalAccessTokenResource_Create c plan))"
proof -
  define rq where "rq =
     \<lparr>cpat_Description = ValueString (tr_Description plan),
      cpat_AutoGenerated = False,
      cpat_ExpiresAt =
        (if \<not> IsNull (tr_ExpiresAt plan) \<and> \<not> IsUnknown (tr_ExpiresAt plan)
         then Some (ValueString (tr_ExpiresAt plan)) else None)\<rparr>"
  have calls: "Calls (personalAccessTokenResource_Create c plan)
                 = [Call_CreatePersonalAccessTokenV1 rq]"
    unfolding personalAccessTokenResource_Create_def Let_def rq_def
    by (cases "CreatePersonalAccessTokenV1 c rq") (simp_all add: rq_def)
  with assms(1) have "q = rq" by simp
  with assms(2) show ?thesis
    unfolding personalAccessTokenResource_Create_def Let_def rq_def
    by (simp add: AddError_def HasError_def)
qed

lemma Marshal_CreateProject_built:
  assumes "DbtConnection plan = Some d"
    and "Marshal_CreateProject c
           ((build_createReq plan)\<lparr>cp_WarehouseConnection := wh,
              cp_UpstreamProjectUUID := String_ptr (UpstreamProjectUUID plan)\<rparr>) = Inr body"
  shows "only_set_fields plan d (wh \<noteq> None) body"
proof -
  obtain ms where ms: "Marshal_warehouseConnection c wh = Inr ms"
      and body: "body = JObject
            ([(''name'', JString (ValueString (Name plan))),
              (''type'', JString (ValueString (Type plan))),
              (''dbtConnection'', Marshal_dbtConnection (build_dbtConnection plan)),
              (''dbtVersion'', JString (ValueString (DbtVersion plan)))]
             @ omitempty ''organizationWarehouseCredentialsUuid'' JString
                 (String_ptr (OrganizationWarehouseCredentialsUUID plan))
             @ ms
             @ omitempty ''upstreamProjectUuid'' JString (String_ptr (UpstreamProjectUUID plan)))"
    using assms(2)
    by (auto simp: Marshal_CreateProject_def build_createReq_def omitempty_def split: sum.splits)
  have wh: "map fst ms = (if wh \<noteq> None then [''warehouseConnection''] else [])"
    using ms by (auto simp: Marshal_warehouseConnection_def split: option.splits sum.splits)
  have ms_cases: "ms = [] \<or> (\<exists>j. ms = [(''warehouseConnection'', j)])"
    using ms by (auto simp: Marshal_warehouseConnection_def split: option.splits sum.splits)
  have dbt: "Marshal_dbtConnection (build_dbtConnection plan) =
      JObject ([(''type'', JString ''github''),
                (''authorization_method'', JString (ValueString (dbt_AuthorizationMethod d)))]
               @ omitempty ''personal_access_token'' JString
                   (String_ptr (dbt_PersonalAccessToken d))
               @ [(''repository'', JString (ValueString (dbt_Repository d))),
                  (''branch'', JString (ValueString (dbt_Branch d))),
                  (''project_sub_path'', JString (ValueString (dbt_ProjectSubPath d)))]
               @ omitempty ''host_domain'' JString (String_ptr (dbt_HostDomain d))
               @ omitempty ''target'' JString (String_ptr (dbt_Target d)))"
    using assms(1)
    by (simp add: Marshal_dbtConnection_def build_dbtConnection_def
        Marshal_DbtGithubProjectConfig_def DbtProjectTypeGithub_def omitempty_def
        omitempty_slice_def)
  have k: "keys body = body_keys_as_set plan (wh \<noteq> None)"
    unfolding body
    by (simp add: keys_def members_def body_keys_as_set_def omitempty_def String_ptr_def wh)
  have f1: "field body ''organizationWarehouseCredentialsUuid''
          = sent_if_set (OrganizationWarehouseCredentialsUUID plan)"
    unfolding body using ms_cases
    by (auto simp: field_def members_def omitempty_def String_ptr_def sent_if_set_def)
  have f2: "field body ''upstreamProjectUuid'' = sent_if_set (UpstreamProjectUUID plan)"
    unfolding body using ms_cases
    by (auto simp: field_def members_def omitempty_def String_ptr_def sent_if_set_def)
  have f3: "field body ''dbtConnection''
              = Some (Marshal_dbtConnection (build_dbtConnection plan))"
    unfolding body by (simp add: field_def members_def)
  have d1: "keys (Marshal_dbtConnection (build_dbtConnection plan)) = dbt_keys_as_set d"
    unfolding dbt
    by (simp add: keys_def members_def dbt_keys_as_set_def omitempty_def String_ptr_def)
  have d2: "field (Marshal_dbtConnection (build_dbtConnection plan)) ''personal_access_token''
              = sent_if_set (dbt_PersonalAccessToken d)"
    unfolding dbt
    by (simp add: field_def members_def omitempty_def String_ptr_def sent_if_set_def)
  have d3: "field (Marshal_dbtConnection (build_dbtConnection plan)) ''host_domain''
              = sent_if_set (dbt_HostDomain d)"
    unfolding dbt
    by (simp add: field_def members_def omitempty_def String_ptr_def sent_if_set_def)
  have d4: "field (Marshal_dbtConnection (build_dbtConnection plan)) ''target''
              = sent_if_set (dbt_Target d)"
    unfolding dbt
    by (simp add: field_def members_def omitempty_def String_ptr_def sent_if_set_def)
  show ?thesis
    unfolding only_set_fields_def using k f1 f2 f3 d1 d2 d3 d4 by simp
qed

lemma Create_call_shape:
  assumes "Calls (projectResource_Create c plan) = [Call_CreateProjectV1 q]"
  shows "\<exists>wh. (wh \<noteq> None) = (WarehouseConnection plan \<noteq> None)
          \<and> q = (build_createReq plan)\<lparr>cp_WarehouseConnection := wh,
                   cp_UpstreamProjectUUID := String_ptr (UpstreamProjectUUID plan)\<rparr>"
proof (cases "WarehouseConnection plan")
  case None
  with assms have "q = (build_createReq plan)
                     \<lparr>cp_UpstreamProjectUUID := String_ptr (UpstreamProjectUUID plan)\<rparr>"
    by (simp add: projectResource_Create_def Create_send_call build_createReq_upstream)
  then have "q = (build_createReq plan)\<lparr>cp_WarehouseConnection := None,
                   cp_UpstreamProjectUUID := String_ptr (UpstreamProjectUUID plan)\<rparr>"
    by (simp add: build_createReq_def)
  with None show ?thesis by blast
next
  case (Some w)
  show ?thesis
  proof (cases "Unmarshal_keyfile c (ValueString (wh_KeyfileContents w))")
    case (Inl err)
    with Some assms show ?thesis by (simp add: projectResource_Create_def)
  next
    case (Inr keyfileMap)
    with Some assms have "q = (build_createReq plan)
                   \<lparr>cp_WarehouseConnection := Some (build_warehouseConn c w keyfileMap),
                    cp_UpstreamProjectUUID := String_ptr (UpstreamProjectUUID plan)\<rparr>"
      by (simp add: projectResource_Create_def Create_send_call build_createReq_upstream)
    with Some show ?thesis by blast
  qed
qed

subsection \<open>Reading\<close>

lemma Read_never_removes: "State (projectResource_Read c state) \<noteq> RemoveResource"
  by (simp add: projectResource_Read_def Let_def split: sum.split)

lemma Read_error:
  "GetProjectV1 c (ValueString (ProjectUUID state)) = Inl err \<Longrightarrow>
   State (projectResource_Read c state) = Untouched
   \<and> HasError (Diagnostics (projectResource_Read c state))"
  by (simp add: projectResource_Read_def AddError_def HasError_def)

lemma token_Read_removes:
  "ListPersonalAccessTokensV1 c = Inr tokens \<Longrightarrow>
   find_token tokens (ValueString (tr_TokenUUID state)) = None \<Longrightarrow>
   personalAccessTokenResource_Read c state =
     \<lparr>Diagnostics = [], State = RemoveResource, Calls = [Call_ListPersonalAccessTokensV1]\<rparr>"
  by (simp add: personalAccessTokenResource_Read_def)

section \<open>The claims\<close>

text \<open>
  Claim C1. Delete on the lightdash\_project resource performs no remote call: it only
  removes the project from local tracking and surfaces a warning, leaving the remote
  project intact.

  The file holds two \<^verbatim>\<open>Delete\<close> methods. On the second one the claim fails: for the stored
  state of project \<open>proj-1\<close> it invokes \<^verbatim>\<open>DeleteProjectV1\<close> and reports no warning.
\<close>

theorem Delete_rev2_calls_DeleteProjectV1:
  "Calls (projectResource_Delete_rev2 example_env example_state)
     = [Call_DeleteProjectV1 ''proj-1'']
   \<and> Diagnostics (projectResource_Delete_rev2 example_env example_state) = []"
  by (simp add: projectResource_Delete_rev2_def example_env_def example_state_def
      example_plan_def)

text \<open>
  Claim C1, amended. For every stored state, \<^verbatim>\<open>Delete\<close> of the first document invokes no
  client method, does not touch the state and reports exactly one diagnostic, the warning
  "Project not deleted", so that the framework drops the resource from its tracking.
  \<^verbatim>\<open>Delete\<close> of the second document invokes \<^verbatim>\<open>DeleteProjectV1\<close> once, on the project UUID
  of the state, and reports an error exactly when that call fails.
\<close>

theorem Delete_local_only:
  "projectResource_Delete c state =
     \<lparr>Diagnostics =
        [\<lparr>Severity = SeverityWarning, Summary = ''Project not deleted'',
          Detail = Lit ''The Lightdash project was removed from Terraform state but still exists in Lightdash. You must manually delete it from the Lightdash UI if desired.''\<rparr>],
      State = Untouched, Calls = []\<rparr>
   \<and> HasError (Diagnostics (projectResource_Delete c state)) = False
   \<and> Calls (projectResource_Delete_rev2 c state)
       = [Call_DeleteProjectV1 (ValueString (ProjectUUID state))]
   \<and> State (projectResource_Delete_rev2 c state) = Untouched
   \<and> HasError (Diagnostics (projectResource_Delete_rev2 c state))
       = (DeleteProjectV1 c (ValueString (ProjectUUID state)) \<noteq> None)"
  by (simp add: projectResource_Delete_def projectResource_Delete_rev2_def AddWarning_def
      AddError_def HasError_def Let_def split: option.split)

text \<open>
  Claim C2. For every project Read where the remote entity is not found at the remote
  end, Read yields "absent" and does not return an error diagnostic.

  The code at this input: the state of project \<open>proj-1\<close>, a server on which \<^verbatim>\<open>GetProjectV1\<close>
  fails with "404 Not Found". \<^verbatim>\<open>Read\<close> reports the error "Error Reading project" and leaves
  the state as it was; it does not remove the resource.
\<close>

theorem Read_not_found_is_error:
  "projectResource_Read not_found_env example_state =
     \<lparr>Diagnostics =
        [\<lparr>Severity = SeverityError, Summary = ''Error Reading project'',
          Detail = Cat (Cat (Cat (Lit ''Could not read project ID '')
                                 (Lit ''organizations/org-1/projects/proj-1''))
                            (Lit '': '')) (Lit ''404 Not Found'')\<rparr>],
      State = Untouched, Calls = [Call_GetProjectV1 ''proj-1'']\<rparr>"
  by (simp add: projectResource_Read_def not_found_env_def example_env_def example_state_def
      example_plan_def AddError_def)

text \<open>
  Claim C3. Update on the lightdash\_project resource is a hard failure that signals that
  replacement is required; it performs no transport call and no mutation of the remote
  entity.

  The file holds two \<^verbatim>\<open>Update\<close> methods. On the second one the claim fails: for a plan that
  renames project \<open>proj-1\<close> it invokes \<^verbatim>\<open>UpdateProjectV1\<close> and reports no error.
\<close>

theorem Update_rev2_calls_UpdateProjectV1:
  "Calls (projectResource_Update_rev2 example_env
            (example_state\<lparr>Name := StringValue ''Renamed''\<rparr>) example_state)
     = [Call_UpdateProjectV1 ''proj-1''
          \<lparr>up_Name = ''Renamed'', up_DbtConnection = build_dbtConnection example_state,
           up_DbtVersion = ''v1.8'', up_OrganizationWarehouseCredentialsUUID = None,
           up_WarehouseConnection = None\<rparr>]
   \<and> HasError (Diagnostics (projectResource_Update_rev2 example_env
                   (example_state\<lparr>Name := StringValue ''Renamed''\<rparr>) example_state)) = False"
  by (simp add: projectResource_Update_rev2_def example_env_def example_state_def
      example_plan_def UpdateProjectV1_def Marshal_UpdateProject_def
      Marshal_warehouseConnection_def NewRequest_def String_ptr_def build_dbtConnection_def
      example_project_def HasError_def Let_def)

text \<open>
  Claim C3, amended. For every plan and state, \<^verbatim>\<open>Update\<close> of the first document invokes no
  client method, does not touch the state and reports exactly one diagnostic, the error
  "Update not supported". \<^verbatim>\<open>Update\<close> of the second document invokes \<^verbatim>\<open>UpdateProjectV1\<close> once,
  on the project UUID of the plan, with the planned name, dbt version, dbt connection and
  warehouse credentials UUID; the request has no field for the type or the organization.
\<close>

theorem Update_by_revision:
  "projectResource_Update c plan state =
     \<lparr>Diagnostics =
        [\<lparr>Severity = SeverityError, Summary = ''Update not supported'',
          Detail = Lit ''Lightdash projects are immutable. Any changes require destroying and recreating the resource.''\<rparr>],
      State = Untouched, Calls = []\<rparr>
   \<and> Calls (projectResource_Update_rev2 c plan state) =
       [Call_UpdateProjectV1 (ValueString (ProjectUUID plan))
          \<lparr>up_Name = ValueString (Name plan),
           up_DbtConnection = build_dbtConnection plan,
           up_DbtVersion = ValueString (DbtVersion plan),
           up_OrganizationWarehouseCredentialsUUID =
             String_ptr (OrganizationWarehouseCredentialsUUID plan),
           up_WarehouseConnection = None\<rparr>]"
  by (simp add: projectResource_Update_def projectResource_Update_rev2_def AddError_def Let_def
      split: sum.split)

text \<open>
  Claim C4. When the HTTP exchange and the decoding of the response succeed and the
  decoded response carries an empty project UUID (token UUID), \<^verbatim>\<open>CreateProjectV1\<close>
  (\<^verbatim>\<open>CreatePersonalAccessTokenV1\<close>) returns the error "project UUID is missing in the
  response" ("token UUID is missing in the response"). Whenever the client method that
  \<^verbatim>\<open>Create\<close> invoked returns an error, \<^verbatim>\<open>Create\<close> of the project resource (either document)
  and of the token resource sets no state and reports an error: the entity is not
  recorded as created.
\<close>

theorem Create_without_uuid_is_error:
  "(Marshal_CreateProject c project = Inr marshalled
      \<and> NewRequest c ''POST'' (HostUrl c @ ''/api/v1/org/projects'') (Some marshalled) = Inr req
      \<and> doRequest c req = Inr body
      \<and> Unmarshal_CreateProjectV1Response c body = Inr response
      \<and> pr_ProjectUUID (res_Project (cpr_Results response)) = []
    \<longrightarrow> CreateProjectV1 c project = Inl (Fmt ''project UUID is missing in the response'' []))
   \<and> (Marshal_CreatePersonalAccessToken c request = Inr marshalled'
      \<and> NewRequest c ''POST'' (HostUrl c @ ''/api/v1/user/me/personal-access-tokens'')
            (Some marshalled') = Inr req'
      \<and> doRequest c req' = Inr body'
      \<and> Unmarshal_CreatePersonalAccessTokenV1Response c body' = Inr response'
      \<and> patw_UUID (cpatr_Results response') = []
    \<longrightarrow> CreatePersonalAccessTokenV1 c request
          = Inl (Fmt ''token UUID is missing in the response'' []))
   \<and> (Calls (projectResource_Create c plan) = [Call_CreateProjectV1 q]
      \<and> CreateProjectV1 c q = Inl err
    \<longrightarrow> State (projectResource_Create c plan) = Untouched
        \<and> HasError (Diagnostics (projectResource_Create c plan)))
   \<and> (Calls (projectResource_Create_rev2 c plan) = [Call_CreateProjectV1 q2]
      \<and> CreateProjectV1 c q2 = Inl err2
    \<longrightarrow> State (projectResource_Create_rev2 c plan) = Untouched
        \<and> HasError (Diagnostics (projectResource_Create_rev2 c plan)))
   \<and> (Calls (personalAccessTokenResource_Create c tplan) = [Call_CreatePersonalAccessTokenV1 tq]
      \<and> CreatePersonalAccessTokenV1 c tq = Inl terr
    \<longrightarrow> State (personalAccessTokenResource_Create c tplan) = Untouched
        \<and> HasError (Diagnostics (personalAccessTokenResource_Create c tplan)))"
proof (intro conjI impI)
  show "CreateProjectV1 c project = Inl (Fmt ''project UUID is missing in the response'' [])"
    if "Marshal_CreateProject c project = Inr marshalled
      \<and> NewRequest c ''POST'' (HostUrl c @ ''/api/v1/org/projects'') (Some marshalled) = Inr req
      \<and> doRequest c req = Inr body
      \<and> Unmarshal_CreateProjectV1Response c body = Inr response
      \<and> pr_ProjectUUID (res_Project (cpr_Results response)) = []"
    using that CreateProjectV1_no_uuid [of c project marshalled req body response] by simp
  show "CreatePersonalAccessTokenV1 c request
          = Inl (Fmt ''token UUID is missing in the response'' [])"
    if "Marshal_CreatePersonalAccessToken c request = Inr marshalled'
      \<and> NewRequest c ''POST'' (HostUrl c @ ''/api/v1/user/me/personal-access-tokens'')
            (Some marshalled') = Inr req'
      \<and> doRequest c req' = Inr body'
      \<and> Unmarshal_CreatePersonalAccessTokenV1Response c body' = Inr response'
      \<and> patw_UUID (cpatr_Results response') = []"
    using that CreatePersonalAccessTokenV1_no_uuid [of c request marshalled' req' body' response']
    by simp
  show "State (projectResource_Create c plan) = Untouched"
    and "HasError (Diagnostics (projectResource_Create c plan))"
    if "Calls (projectResource_Create c plan) = [Call_CreateProjectV1 q]
      \<and> CreateProjectV1 c q = Inl err"
    using that Create_error [of c plan q err] by simp_all
  show "State (projectResource_Create_rev2 c plan) = Untouched"
    and "HasError (Diagnostics (projectResource_Create_rev2 c plan))"
    if "Calls (projectResource_Create_rev2 c plan) = [Call_CreateProjectV1 q2]
      \<and> CreateProjectV1 c q2 = Inl err2"
    using that Create_rev2_error [of c plan q2 err2] by simp_all
  show "State (personalAccessTokenResource_Create c tplan) = Untouched"
    and "HasError (Diagnostics (personalAccessTokenResource_Create c tplan))"
    if "Calls (personalAccessTokenResource_Create c tplan) = [Call_CreatePersonalAccessTokenV1 tq]
      \<and> CreatePersonalAccessTokenV1 c tq = Inl terr"
    using that token_Create_error [of c tplan tq terr] by simp_all
qed

text \<open>
  At a server whose answers decode to an empty UUID: both client methods return the
  error, and creating the preview project or the token sets no state.
\<close>

theorem Create_without_uuid_is_error_witness:
  "CreateProjectV1 no_uuid_env example_createReq
     = Inl (Fmt ''project UUID is missing in the response'' [])
   \<and> CreatePersonalAccessTokenV1 no_uuid_env example_token_request
     = Inl (Fmt ''token UUID is missing in the response'' [])
   \<and> State (projectResource_Create no_uuid_env example_plan) = Untouched
   \<and> HasError (Diagnostics (projectResource_Create no_uuid_env example_plan))
   \<and> State (projectResource_Create_rev2 no_uuid_env example_plan) = Untouched
   \<and> HasError (Diagnostics (projectResource_Create_rev2 no_uuid_env example_plan))
   \<and> State (personalAccessTokenResource_Create no_uuid_env example_token_plan) = Untouched
   \<and> HasError (Diagnostics (personalAccessTokenResource_Create no_uuid_env example_token_plan))"
  using Create_without_uuid_is_error
    [where c = no_uuid_env
       and project = example_createReq
       and marshalled = example_body
       and req = "\<lparr>req_Method = ''POST'',
                   req_URL = ''https://lightdash.example/api/v1/org/projects'',
                   req_Body = Some example_body\<rparr>"
       and body = "''{}''"
       and response = "\<lparr>cpr_Results =
                          \<lparr>res_HasContentCopy = False, res_ContentCopyError = None,
                           res_Project = example_project\<lparr>pr_ProjectUUID := []\<rparr>\<rparr>,
                        cpr_Status = ''ok''\<rparr>"
       and request = example_token_request
       and marshalled' = "JObject []"
       and req' = "\<lparr>req_Method = ''POST'',
                    req_URL = ''https://lightdash.example/api/v1/user/me/personal-access-tokens'',
                    req_Body = Some (JObject [])\<rparr>"
       and body' = "''{}''"
       and response' = "\<lparr>cpatr_Results = example_created_token\<lparr>patw_UUID := []\<rparr>,
                         cpatr_Status = ''ok''\<rparr>"
       and plan = example_plan
       and q = example_createReq
       and err = "Fmt ''project UUID is missing in the response'' []"
       and ?q2.0 = example_createReq
       and ?err2.0 = "Fmt ''project UUID is missing in the response'' []"
       and tplan = example_token_plan
       and tq = example_token_request
       and terr = "Fmt ''token UUID is missing in the response'' []"]
  by (simp add: example_defs api_defs provider_defs personalAccessTokenResource_Create_def)

text \<open>
  Claim C5. For every organization UUID \<open>o\<close> and project UUID \<open>p\<close> that are non-empty and
  contain no '/', formatting the composite ID and then parsing it returns exactly the pair
  \<open>(o, p)\<close>; consequently Import of such an ID yields observed state whose organization and
  project UUID fields equal \<open>o\<close> and \<open>p\<close>.

  The second half fails: \<^verbatim>\<open>ImportState\<close> writes the organization and project UUID of the
  server's answer, not those of the ID. Importing \<open>organizations/org-1/projects/proj-1\<close>
  from a server that holds \<open>proj-1\<close> in organization \<open>org-2\<close> yields a state whose
  organization UUID is \<open>org-2\<close>.
\<close>

theorem import_takes_ids_from_server:
  "map_option State
     (projectResource_ImportState example_env ''organizations/org-1/projects/proj-1'')
      = Some (StateSet (imported_state ''organizations/org-1/projects/proj-1'' example_remote))
   \<and> OrganizationUUID (imported_state ''organizations/org-1/projects/proj-1'' example_remote)
      = StringValue ''org-2''
   \<and> StringValue ''org-2'' \<noteq> StringValue ''org-1''"
  using ImportState_match [of "''org-1''" "''proj-1''" example_env] imported_state_ids
  by (simp add: example_env_def example_remote_def)

text \<open>
  Claim C5, amended. For every such \<open>o\<close> and \<open>p\<close>, formatting the composite ID and then
  parsing it returns exactly \<open>[o, p]\<close>. \<^verbatim>\<open>ImportState\<close> of that ID returns, having invoked
  \<^verbatim>\<open>GetProjectV1\<close> once, on \<open>p\<close>. When that call fails it sets no state and reports an error.
  When it succeeds the state has the given ID as its \<open>id\<close> and the organization and project
  UUID of the server's answer; they equal \<open>o\<close> and \<open>p\<close> exactly when the answer carries \<open>o\<close>
  and \<open>p\<close>.
\<close>

theorem import_id_round_trip:
  assumes "o' \<noteq> []" "p \<noteq> []" "CHR ''/'' \<notin> set o'" "CHR ''/'' \<notin> set p"
  shows "extractProjectResourceId (getProjectResourceId o' p) = Some (Inr [o', p])
    \<and> (\<exists>r. projectResource_ImportState c (getProjectResourceId o' p) = Some r
          \<and> Calls r = [Call_GetProjectV1 p]
          \<and> (case GetProjectV1 c p of
                Inl err \<Rightarrow> State r = Untouched \<and> HasError (Diagnostics r)
              | Inr importedProject \<Rightarrow>
                  (\<exists>s. State r = StateSet s
                     \<and> ID s = StringValue (getProjectResourceId o' p)
                     \<and> OrganizationUUID s = StringValue (gp_OrganizationUUID importedProject)
                     \<and> ProjectUUID s = StringValue (gp_ProjectUUID importedProject)
                     \<and> ((OrganizationUUID s = StringValue o' \<and> ProjectUUID s = StringValue p)
                          = (gp_OrganizationUUID importedProject = o'
                             \<and> gp_ProjectUUID importedProject = p)))))"
  unfolding getProjectResourceId_def
  using extractProjectResourceId_match [OF assms] ImportState_match [OF assms, of c]
    imported_state_ids
  by (auto simp: HasError_def split: sum.split)

text \<open>
  At \<open>o = org-2\<close>, \<open>p = proj-1\<close> and the same server, whose answer carries both: the ID
  parses to the pair and the imported state has the two UUIDs.
\<close>

theorem import_id_round_trip_witness:
  "getProjectResourceId ''org-2'' ''proj-1'' = ''organizations/org-2/projects/proj-1''
   \<and> extractProjectResourceId ''organizations/org-2/projects/proj-1''
       = Some (Inr [''org-2'', ''proj-1''])
   \<and> GetProjectV1 example_env ''proj-1'' = Inr example_remote
   \<and> gp_OrganizationUUID example_remote = ''org-2''
   \<and> gp_ProjectUUID example_remote = ''proj-1''
   \<and> (\<exists>r s. projectResource_ImportState example_env ''organizations/org-2/projects/proj-1''
                = Some r
            \<and> Calls r = [Call_GetProjectV1 ''proj-1'']
            \<and> State r = StateSet s
            \<and> OrganizationUUID s = StringValue ''org-2''
            \<and> ProjectUUID s = StringValue ''proj-1'')"
proof -
  have h: "''org-2'' \<noteq> []" "''proj-1'' \<noteq> []" "CHR ''/'' \<notin> set ''org-2''"
    "CHR ''/'' \<notin> set ''proj-1''"
    by simp_all
  have g: "GetProjectV1 example_env ''proj-1'' = Inr example_remote"
    by (simp add: example_env_def)
  have u: "gp_OrganizationUUID example_remote = ''org-2''"
    "gp_ProjectUUID example_remote = ''proj-1''"
    by (simp_all add: example_remote_def)
  have i: "getProjectResourceId ''org-2'' ''proj-1'' = ''organizations/org-2/projects/proj-1''"
    by (simp add: getProjectResourceId_def)
  from import_id_round_trip [OF h, of example_env] show ?thesis
    unfolding i g using g u by auto
qed

text \<open>
  Claim C6. For every import ID that does not match
  \<^verbatim>\<open>^organizations/([^/]+)/projects/([^/]+)$\<close>, that is, every string that is not
  \<open>organizations/\<close>, a non-empty run without '/', \<open>/projects/\<close> and another such run,
  \<^verbatim>\<open>ImportState\<close> returns with exactly one diagnostic, the error "Error extracting resource
  ID" whose detail carries an error that names the pattern, with the state untouched and
  no client method invoked.
\<close>

theorem malformed_import_id_rejected:
  assumes "\<not> (\<exists>o' p. o' \<noteq> [] \<and> p \<noteq> [] \<and> CHR ''/'' \<notin> set o' \<and> CHR ''/'' \<notin> set p \<and>
              reqID = ''organizations/'' @ o' @ ''/projects/'' @ p)"
  shows "\<exists>err. projectResource_ImportState c reqID =
            Some \<lparr>Diagnostics =
                    [\<lparr>Severity = SeverityError, Summary = ''Error extracting resource ID'',
                      Detail = Cat (Lit ''Could not extract resource ID, unexpected error: '')
                                   err\<rparr>],
                  State = Untouched, Calls = []\<rparr>
          \<and> mentions err ''^organizations/([^/]+)/projects/([^/]+)$''"
  unfolding projectResource_ImportState_def extractProjectResourceId_no_match [OF assms]
  by (simp add: AddError_def)

text \<open>At the ID \<open>not-a-valid-id\<close> of the spec.\<close>

theorem malformed_import_id_rejected_witness:
  "projectResource_ImportState example_env ''not-a-valid-id'' =
     Some \<lparr>Diagnostics =
             [\<lparr>Severity = SeverityError, Summary = ''Error extracting resource ID'',
               Detail = Cat (Lit ''Could not extract resource ID, unexpected error: '')
                          (Fmt ''could not extract resource ID: %w''
                             [Fmt ''no match for pattern %s: %s''
                                [Lit ''^organizations/([^/]+)/projects/([^/]+)$'',
                                 Lit ''not-a-valid-id'']])\<rparr>],
           State = Untouched, Calls = []\<rparr>"
proof -
  have h: "\<not> (\<exists>o' p. o' \<noteq> [] \<and> p \<noteq> [] \<and> CHR ''/'' \<notin> set o' \<and> CHR ''/'' \<notin> set p \<and>
              ''not-a-valid-id'' = ''organizations/'' @ o' @ ''/projects/'' @ p)"
    by simp
  from malformed_import_id_rejected [OF h, of example_env] obtain err where
    r: "projectResource_ImportState example_env ''not-a-valid-id'' =
            Some \<lparr>Diagnostics =
                    [\<lparr>Severity = SeverityError, Summary = ''Error extracting resource ID'',
                      Detail = Cat (Lit ''Could not extract resource ID, unexpected error: '')
                                   err\<rparr>],
                  State = Untouched, Calls = []\<rparr>"
    by blast
  have "projectResource_ImportState example_env ''not-a-valid-id'' =
     Some \<lparr>Diagnostics =
             [\<lparr>Severity = SeverityError, Summary = ''Error extracting resource ID'',
               Detail = Cat (Lit ''Could not extract resource ID, unexpected error: '')
                          (Fmt ''could not extract resource ID: %w''
                             [Fmt ''no match for pattern %s: %s''
                                [Lit ''^organizations/([^/]+)/projects/([^/]+)$'',
                                 Lit ''not-a-valid-id'']])\<rparr>],
           State = Untouched, Calls = []\<rparr>"
    unfolding projectResource_ImportState_def extractProjectResourceId_no_match [OF h]
    by (simp add: AddError_def)
  with r show ?thesis by simp
qed

text \<open>
  Claim C7. For every project Create plan (with its required \<^verbatim>\<open>dbt_connection\<close>), the body
  that \<^verbatim>\<open>CreateProjectV1\<close> marshals from the request of \<^verbatim>\<open>Create\<close> contains only fields
  set in the plan: its keys are \<open>name\<close>, \<open>type\<close>, \<open>dbtConnection\<close>, \<open>dbtVersion\<close> and, each
  exactly when the plan's attribute is not null, \<open>organizationWarehouseCredentialsUuid\<close>,
  \<open>warehouseConnection\<close> and \<open>upstreamProjectUuid\<close>; inside \<open>dbtConnection\<close> the keys
  \<open>personal_access_token\<close>, \<open>host_domain\<close> and \<open>target\<close> are present exactly when not null.
  A key that is present carries the plan's value. This holds for \<^verbatim>\<open>Create\<close> of both
  documents; the second never sends \<open>warehouseConnection\<close>.
\<close>

theorem Create_body_only_set_fields:
  "(Calls (projectResource_Create c plan) = [Call_CreateProjectV1 q]
      \<and> Marshal_CreateProject c q = Inr body
      \<and> DbtConnection plan = Some d
    \<longrightarrow> only_set_fields plan d (WarehouseConnection plan \<noteq> None) body)
   \<and> (Calls (projectResource_Create_rev2 c plan) = [Call_CreateProjectV1 q2]
      \<and> Marshal_CreateProject c q2 = Inr body2
      \<and> DbtConnection plan = Some d
    \<longrightarrow> only_set_fields plan d False body2)"
proof (intro conjI impI)
  assume a: "Calls (projectResource_Create c plan) = [Call_CreateProjectV1 q]
      \<and> Marshal_CreateProject c q = Inr body \<and> DbtConnection plan = Some d"
  then obtain wh where wh: "(wh \<noteq> None) = (WarehouseConnection plan \<noteq> None)"
    and q: "q = (build_createReq plan)\<lparr>cp_WarehouseConnection := wh,
                   cp_UpstreamProjectUUID := String_ptr (UpstreamProjectUUID plan)\<rparr>"
    using Create_call_shape by blast
  from a q have "only_set_fields plan d (wh \<noteq> None) body"
    using Marshal_CreateProject_built [of plan d c wh body] by simp
  with wh show "only_set_fields plan d (WarehouseConnection plan \<noteq> None) body" by simp
next
  assume a: "Calls (projectResource_Create_rev2 c plan) = [Call_CreateProjectV1 q2]
      \<and> Marshal_CreateProject c q2 = Inr body2 \<and> DbtConnection plan = Some d"
  then have "q2 = (build_createReq plan)\<lparr>cp_WarehouseConnection := None,
                   cp_UpstreamProjectUUID := String_ptr (UpstreamProjectUUID plan)\<rparr>"
    by (simp add: projectResource_Create_rev2_def Create_send_call build_createReq_upstream)
      (simp add: build_createReq_def)
  with a have "only_set_fields plan d (None \<noteq> (None :: BigQueryCredentials option)) body2"
    using Marshal_CreateProject_built [of plan d c None body2] by simp
  then show "only_set_fields plan d False body2" by simp
qed

text \<open>
  At the preview project of the example, whose plan sets \<^verbatim>\<open>upstream_project_uuid\<close> and
  \<^verbatim>\<open>target\<close> and leaves \<^verbatim>\<open>organization_warehouse_credentials_uuid\<close>, \<^verbatim>\<open>warehouse_connection\<close>
  and \<^verbatim>\<open>host_domain\<close> null: the body has the key \<open>upstreamProjectUuid\<close> and none of the
  null ones.
\<close>

theorem Create_body_only_set_fields_witness:
  "Calls (projectResource_Create example_env example_plan)
     = [Call_CreateProjectV1 example_createReq]
   \<and> Calls (projectResource_Create_rev2 example_env example_plan)
     = [Call_CreateProjectV1 example_createReq]
   \<and> Marshal_CreateProject example_env example_createReq = Inr example_body
   \<and> only_set_fields example_plan example_dbt False example_body
   \<and> keys example_body
       = [''name'', ''type'', ''dbtConnection'', ''dbtVersion'', ''upstreamProjectUuid'']
   \<and> field example_body ''upstreamProjectUuid'' = Some (JString ''proj-0'')"
proof -
  have c1: "Calls (projectResource_Create example_env example_plan)
              = [Call_CreateProjectV1 example_createReq]"
    by (simp add: projectResource_Create_def Create_send_call build_createReq_def
        build_dbtConnection_def String_ptr_def DbtProjectTypeGithub_def example_plan_def
        example_dbt_def example_createReq_def)
  have c2: "Calls (projectResource_Create_rev2 example_env example_plan)
              = [Call_CreateProjectV1 example_createReq]"
    by (simp add: projectResource_Create_rev2_def Create_send_call build_createReq_def
        build_dbtConnection_def String_ptr_def DbtProjectTypeGithub_def example_plan_def
        example_dbt_def example_createReq_def)
  have m: "Marshal_CreateProject example_env example_createReq = Inr example_body"
    by (simp add: api_defs example_createReq_def example_body_def)
  have d: "DbtConnection example_plan = Some example_dbt"
    by (simp add: example_plan_def)
  have w: "WarehouseConnection example_plan = None"
    by (simp add: example_plan_def)
  have "only_set_fields example_plan example_dbt False example_body"
    using Create_body_only_set_fields
      [of example_env example_plan example_createReq example_body example_dbt
          example_createReq example_body]
      c1 c2 m d w
    by simp
  moreover have "keys example_body
       = [''name'', ''type'', ''dbtConnection'', ''dbtVersion'', ''upstreamProjectUuid'']"
    by (simp add: keys_def members_def example_body_def)
  moreover have "field example_body ''upstreamProjectUuid'' = Some (JString ''proj-0'')"
    by (simp add: field_def members_def example_body_def)
  ultimately show ?thesis using c1 c2 m by simp
qed

text \<open>
  Claim C8. For every successful project Read (the same text in both documents), the
  fields the server does not echo back, the whole \<^verbatim>\<open>dbt_connection\<close> block with the secret
  \<^verbatim>\<open>personal_access_token\<close> among them, are those of the prior state; Read rewrites only
  \<open>name\<close>, \<open>type\<close>, \<open>organization_uuid\<close>, \<open>dbt_version\<close> (when the server returns a non-empty
  value), \<open>organization_warehouse_credentials_uuid\<close> and \<open>upstream_project_uuid\<close>.
\<close>

theorem Read_keeps_unechoed_fields:
  assumes "GetProjectV1 c (ValueString (ProjectUUID state)) = Inr project"
  shows "projectResource_Read c state =
           \<lparr>Diagnostics = [],
            State = StateSet
              (state\<lparr>Name := StringValue (gp_ProjectName project),
                     Type := StringValue (gp_ProjectType project),
                     OrganizationUUID := StringValue (gp_OrganizationUUID project),
                     DbtVersion := (if gp_DbtVersion project \<noteq> []
                                    then StringValue (gp_DbtVersion project)
                                    else DbtVersion state),
                     OrganizationWarehouseCredentialsUUID :=
                       nullable (gp_OrganizationWarehouseCredentialsUUID project),
                     UpstreamProjectUUID := nullable (gp_UpstreamProjectUUID project)\<rparr>),
            Calls = [Call_GetProjectV1 (ValueString (ProjectUUID state))]\<rparr>
    \<and> (\<exists>s. State (projectResource_Read c state) = StateSet s
             \<and> DbtConnection s = DbtConnection state
             \<and> WarehouseConnection s = WarehouseConnection state
             \<and> ID s = ID state
             \<and> ProjectUUID s = ProjectUUID state)"
  using assms by (simp add: projectResource_Read_def Let_def nullable_def)

text \<open>
  At the state of the example and a server that holds the project renamed, in another
  organization and with no dbt version: the dbt connection, token included, stays.
\<close>

theorem Read_keeps_unechoed_fields_witness:
  "GetProjectV1 example_env (ValueString (ProjectUUID example_state)) = Inr example_remote
   \<and> State (projectResource_Read example_env example_state) =
       StateSet (example_state\<lparr>Name := StringValue ''Renamed Project'',
                               OrganizationUUID := StringValue ''org-2'',
                               OrganizationWarehouseCredentialsUUID := StringValue ''cred-1'',
                               UpstreamProjectUUID := StringNull\<rparr>)
   \<and> DbtConnection (example_state\<lparr>Name := StringValue ''Renamed Project'',
                               OrganizationUUID := StringValue ''org-2'',
                               OrganizationWarehouseCredentialsUUID := StringValue ''cred-1'',
                               UpstreamProjectUUID := StringNull\<rparr>) = Some example_dbt
   \<and> dbt_PersonalAccessToken example_dbt = StringValue ''ghp_secret''"
proof -
  have h: "GetProjectV1 example_env (ValueString (ProjectUUID example_state))
             = Inr example_remote"
    by (simp add: example_env_def)
  show ?thesis
    using h Read_keeps_unechoed_fields [OF h]
    by (simp add: example_state_def example_plan_def example_remote_def example_dbt_def
        nullable_def)
qed

text \<open>
  Claim C9. For every Create plan (first document) with a \<^verbatim>\<open>warehouse_connection\<close> whose
  \<^verbatim>\<open>keyfile_contents\<close> \<^verbatim>\<open>json.Unmarshal\<close> rejects, \<^verbatim>\<open>Create\<close> reports exactly one diagnostic,
  the error "Error parsing keyfile\_contents", invokes no client method and leaves the
  state untouched.
\<close>

theorem Create_rejects_bad_keyfile:
  assumes "WarehouseConnection plan = Some w"
    and "Unmarshal_keyfile c (ValueString (wh_KeyfileContents w)) = Inl err"
  shows "projectResource_Create c plan =
           \<lparr>Diagnostics =
              [\<lparr>Severity = SeverityError, Summary = ''Error parsing keyfile_contents'',
                Detail = Cat (Lit ''Could not parse keyfile_contents as JSON: '') err\<rparr>],
            State = Untouched, Calls = []\<rparr>"
  using assms by (simp add: projectResource_Create_def AddError_def)

text \<open>At the plan of the example with a warehouse connection whose keyfile is \<open>not json\<close>.\<close>

theorem Create_rejects_bad_keyfile_witness:
  "Unmarshal_keyfile example_env ''not json'' = Inl (Lit ''invalid character'')
   \<and> projectResource_Create example_env
         (example_plan\<lparr>WarehouseConnection := Some example_warehouse\<rparr>) =
       \<lparr>Diagnostics =
          [\<lparr>Severity = SeverityError, Summary = ''Error parsing keyfile_contents'',
            Detail = Cat (Lit ''Could not parse keyfile_contents as JSON: '')
                         (Lit ''invalid character'')\<rparr>],
        State = Untouched, Calls = []\<rparr>"
proof -
  have w: "WarehouseConnection (example_plan\<lparr>WarehouseConnection := Some example_warehouse\<rparr>)
             = Some example_warehouse" by simp
  have k: "Unmarshal_keyfile example_env (ValueString (wh_KeyfileContents example_warehouse))
             = Inl (Lit ''invalid character'')"
    by (simp add: example_env_def example_warehouse_def)
  show ?thesis
    using k Create_rejects_bad_keyfile [OF w k] by (simp add: example_warehouse_def)
qed

text \<open>
  Claim C10. For every list that \<^verbatim>\<open>ListPersonalAccessTokensV1\<close> returns, the tokens of the
  state that the data source's Read sets are the converted tokens of the list, each as
  often as listed, in ascending order of token UUID: their UUIDs are the listed UUIDs,
  sorted, whatever the order of the list.
\<close>

theorem tokens_sorted_by_uuid:
  assumes "ListPersonalAccessTokensV1 c = Inr tokens"
  shows "\<exists>s. State (personalAccessTokensDataSource_Read c state) = StateSet s
           \<and> mset (Tokens s) = mset (map fetchedToken tokens)
           \<and> length (Tokens s) = length tokens
           \<and> map (\<lambda>t. ValueString (TokenUUID t)) (Tokens s) = sort (map pat_UUID tokens)
           \<and> sorted (map (\<lambda>t. ValueString (TokenUUID t)) (Tokens s))"
proof -
  let ?ts = "sort_Slice less_TokenUUID (map fetchedToken tokens)"
  let ?key = "\<lambda>t. ValueString (TokenUUID t)"
  have st: "State (personalAccessTokensDataSource_Read c state) =
          StateSet (state\<lparr>ds_ID := StringValue ''personal-access-tokens'', Tokens := ?ts\<rparr>)"
    using assms
    by (simp add: personalAccessTokensDataSource_Read_def convert_tokens_append)
  have m: "mset ?ts = mset (map fetchedToken tokens)" by (rule mset_sort_Slice)
  then have l: "length ?ts = length tokens" by (metis length_map size_mset)
  have s: "sorted (map ?key ?ts)" by (rule sorted_sort_Slice)
  have "mset (map ?key ?ts) = mset (map ?key (map fetchedToken tokens))"
    using m by (metis mset_map)
  also have "map ?key (map fetchedToken tokens) = map pat_UUID tokens"
    by (simp add: fetchedToken_def)
  finally have "sort (map pat_UUID tokens) = map ?key ?ts"
    using s by (intro properties_for_sort) simp_all
  with st m l s show ?thesis by simp
qed

text \<open>At a server that lists token \<open>b2\<close> before token \<open>a1\<close>: the state lists \<open>a1\<close> first.\<close>

theorem tokens_sorted_by_uuid_witness:
  "ListPersonalAccessTokensV1 example_env = Inr example_tokens
   \<and> map pat_UUID example_tokens = [''b2'', ''a1'']
   \<and> (\<exists>s. State (personalAccessTokensDataSource_Read example_env
                    \<lparr>ds_ID = StringNull, Tokens = []\<rparr>) = StateSet s
           \<and> map (\<lambda>t. ValueString (TokenUUID t)) (Tokens s) = [''a1'', ''b2''])"
proof -
  have h: "ListPersonalAccessTokensV1 example_env = Inr example_tokens"
    by (simp add: ListPersonalAccessTokensV1_def NewRequest_def example_env_def)
  have u: "map pat_UUID example_tokens = [''b2'', ''a1'']" by (simp add: example_tokens_def)
  have "sort [''b2'', ''a1''] = [''a1'', ''b2'']" by simp
  with h u tokens_sorted_by_uuid [OF h, of "\<lparr>ds_ID = StringNull, Tokens = []\<rparr>"]
  show ?thesis by auto
qed

end
